theory Spec2Isabelle
  imports Main "HOL-Library.Sublist" "HOL-Library.Multiset" "HOL-Library.AList"
begin

section \<open>Python strings\<close>

text \<open>
  A Python \<open>str\<close> is a sequence of Unicode code points; it is modelled as a list of
  natural numbers, one per code point.  \<open>lit\<close> turns an ASCII literal of the source into
  such a list.
\<close>

type_synonym pystr = "nat list"

definition lit :: "string \<Rightarrow> pystr" where
  "lit cs = map of_char cs"

text \<open>\<open>sub in s\<close>: \<open>sub\<close> occurs in \<open>s\<close> as a contiguous run.\<close>

fun contains :: "'a list \<Rightarrow> 'a list \<Rightarrow> bool" where
  "contains sub [] = (sub = [])"
| "contains sub (c # cs) = (prefix sub (c # cs) \<or> contains sub cs)"

text \<open>\<open>sep.join(xs)\<close>.\<close>

fun join :: "'a list \<Rightarrow> 'a list list \<Rightarrow> 'a list" where
  "join sep [] = []"
| "join sep [x] = x"
| "join sep (x # y # ys) = x @ sep @ join sep (y # ys)"

text \<open>
  The line boundaries of \<open>str.splitlines\<close>: LF, VT, FF, CR, FS, GS, RS, NEL, LS and PS;
  the pair CR LF is one boundary.
\<close>

definition is_linebreak :: "nat \<Rightarrow> bool" where
  "is_linebreak c = (c = 0x0A \<or> c = 0x0B \<or> c = 0x0C \<or> c = 0x0D \<or> c = 0x1C \<or> c = 0x1D
     \<or> c = 0x1E \<or> c = 0x85 \<or> c = 0x2028 \<or> c = 0x2029)"

fun splitlines_from :: "pystr \<Rightarrow> pystr \<Rightarrow> pystr list" where
  "splitlines_from cur [] = (if cur = [] then [] else [cur])"
| "splitlines_from cur [c] = (if is_linebreak c then [cur] else [cur @ [c]])"
| "splitlines_from cur (c # d # cs) =
     (if c = 0x0D \<and> d = 0x0A then cur # splitlines_from [] cs
      else if is_linebreak c then cur # splitlines_from [] (d # cs)
      else splitlines_from (cur @ [c]) (d # cs))"

definition splitlines :: "pystr \<Rightarrow> pystr list" where
  "splitlines s = splitlines_from [] s"

text \<open>The code points for which \<open>str.isspace\<close> holds; \<open>str.strip()\<close> removes them at both ends.\<close>

definition is_space :: "nat \<Rightarrow> bool" where
  "is_space c = ((0x09 \<le> c \<and> c \<le> 0x0D) \<or> (0x1C \<le> c \<and> c \<le> 0x20) \<or> c = 0x85 \<or> c = 0xA0
     \<or> c = 0x1680 \<or> (0x2000 \<le> c \<and> c \<le> 0x200A) \<or> c = 0x2028 \<or> c = 0x2029 \<or> c = 0x202F
     \<or> c = 0x205F \<or> c = 0x3000)"

definition strip_where :: "('a \<Rightarrow> bool) \<Rightarrow> 'a list \<Rightarrow> 'a list" where
  "strip_where P s = rev (dropWhile P (rev (dropWhile P s)))"

definition strip :: "pystr \<Rightarrow> pystr" where
  "strip s = strip_where is_space s"

text \<open>\<open>s.strip("/")\<close> and \<open>s.count("/")\<close>.\<close>

definition strip_slash :: "pystr \<Rightarrow> pystr" where
  "strip_slash s = strip_where (\<lambda>c. c = 0x2F) s"

definition count_slash :: "pystr \<Rightarrow> nat" where
  "count_slash s = length (filter (\<lambda>c. c = 0x2F) s)"

text \<open>\<open>s.split(sep, 1)[0]\<close>: the text before the leftmost occurrence of \<open>sep\<close>.\<close>

fun before_sep :: "'a list \<Rightarrow> 'a list \<Rightarrow> 'a list" where
  "before_sep sep [] = []"
| "before_sep sep (c # cs) = (if prefix sep (c # cs) then [] else c # before_sep sep cs)"

text \<open>\<open>str(n)\<close> for an integer: decimal digits, with a leading minus sign when negative.\<close>

fun digits_of :: "nat \<Rightarrow> pystr" where
  "digits_of n = (if n < 10 then [0x30 + n] else digits_of (n div 10) @ [0x30 + n mod 10])"

declare digits_of.simps [simp del]

definition str_of_int :: "int \<Rightarrow> pystr" where
  "str_of_int i = (if i < 0 then 0x2D # digits_of (nat (- i)) else digits_of (nat i))"

text \<open>
  \<open>os.path.join(a, b)\<close> of \<open>posixpath\<close>: an absolute second component replaces the first;
  otherwise the two are concatenated, with a separator unless the first is empty or
  already ends in one.  The result is not normalised.
\<close>

definition os_path_join :: "pystr \<Rightarrow> pystr \<Rightarrow> pystr" where
  "os_path_join a b =
     (if prefix [0x2F] b then b
      else if a = [] \<or> last a = 0x2F then a @ b
      else a @ [0x2F] @ b)"

section \<open>Exceptions, the environment and the command executor\<close>

text \<open>
  The SVN module raises a single exception class, \<open>VCSException\<close>, whose message is
  formatted from the data below (one constructor of \<open>vcs_msg\<close> per raise site).  The
  other constructors of \<open>exn\<close> are the library exceptions the code lets through.
\<close>

datatype vcs_msg =
    CmdFailed "pystr list" int pystr pystr
      \<comment> \<open>\<open>run_cmd\<close>: the argument vector, exit code, stdout and stderr\<close>
  | SvnFailed "pystr list" int pystr pystr
      \<comment> \<open>\<open>_svn\<close>: the argument vector, exit code, stdout and stderr\<close>
  | UpdateToNotRun
      \<comment> \<open>\<open>collect_update_result\<close>: \<open>update_to()\<close> was not executed\<close>
  | BeforeRevUnset
      \<comment> \<open>\<open>collect_change_summary\<close>: \<open>before_update_rev\<close> is not set\<close>
  | NoRevDate pystr
      \<comment> \<open>\<open>get_rev_time\<close>: no log entry for the revision\<close>
  | ProfileNoProjects
      \<comment> \<open>\<open>ensure_sparse_workspace\<close>: the profile has no \<open>projects\<close> dictionary\<close>
  | ProjectIncomplete pystr
      \<comment> \<open>\<open>ensure_sparse_workspace\<close>: a project lacks \<open>repo_url\<close> or \<open>root_path\<close>\<close>

datatype git_msg =
    NoSshKey
  | SshKeyMissing pystr
  | NotAGitRepo pystr

datatype exn =
    VCSException vcs_msg
  | GitError git_msg
  | GitCommandError pystr
  | ParseError
  | KeyError pystr
  | ValueError
  | OSError

text \<open>An XML element as \<open>xml.etree.ElementTree\<close> presents it.\<close>

datatype xml = Element (tag: pystr) (attrib: "(pystr \<times> pystr) list") (elem_text: "pystr option")
  (children: "xml list")

text \<open>
  The collaborators outside the program: the subordinate process, the file system, the
  XML parser, the clock and the process environment.  \<open>'w\<close> is the state of the outside
  world.  A subordinate process is taken to start and to exit: \<open>subprocess_run\<close> gives its
  exit code, decoded stdout and decoded stderr, and the world after it.  Its third
  argument is the \<open>GIT_SSH_COMMAND\<close> override of the environment, when there is one.
\<close>

record 'w env =
  subprocess_run :: "pystr list \<Rightarrow> pystr option \<Rightarrow> pystr option \<Rightarrow> 'w \<Rightarrow> (int \<times> pystr \<times> pystr) \<times> 'w"
  path_isdir :: "pystr \<Rightarrow> 'w \<Rightarrow> bool"
  path_exists :: "pystr \<Rightarrow> 'w \<Rightarrow> bool"
  rmtree :: "pystr \<Rightarrow> 'w \<Rightarrow> 'w"
  os_remove :: "pystr \<Rightarrow> 'w \<Rightarrow> 'w"
  makedirs :: "pystr \<Rightarrow> 'w \<Rightarrow> bool \<times> 'w"
  fromstring :: "pystr \<Rightarrow> xml option"
  utcnow_isoformat :: "'w \<Rightarrow> pystr"
  getenv :: "pystr \<Rightarrow> pystr option"
  expanduser :: "pystr \<Rightarrow> pystr"
  os_name :: pystr

text \<open>
  The state threaded through the program: the outside world, and the log of every
  subordinate process started so far (argument vector and working directory).
\<close>

record 'w st =
  world :: 'w
  trace :: "(pystr list \<times> pystr option) list"

type_synonym ('w, 'a) io = "'w st \<Rightarrow> (exn + 'a) \<times> 'w st"

definition return :: "'a \<Rightarrow> ('w, 'a) io" where
  "return x s = (Inr x, s)"

definition raise :: "exn \<Rightarrow> ('w, 'a) io" where
  "raise e s = (Inl e, s)"

definition bnd :: "('w, 'a) io \<Rightarrow> ('a \<Rightarrow> ('w, 'b) io) \<Rightarrow> ('w, 'b) io" where
  "bnd m f s = (case m s of (Inl e, s') \<Rightarrow> (Inl e, s') | (Inr x, s') \<Rightarrow> f x s')"

text \<open>\<open>run_cmd(args, cwd, check)\<close>.\<close>

definition run_cmd :: "'w env \<Rightarrow> pystr list \<Rightarrow> pystr option \<Rightarrow> bool \<Rightarrow> ('w, int \<times> pystr \<times> pystr) io" where
  "run_cmd env args cwd check s =
     (case subprocess_run env args cwd None (world s) of
        ((returncode, out, err), w') \<Rightarrow>
          (let s' = s\<lparr>world := w', trace := trace s @ [(args, cwd)]\<rparr> in
           if check \<and> returncode \<noteq> 0
           then (Inl (VCSException (CmdFailed args returncode out err)), s')
           else (Inr (returncode, out, err), s')))"

section \<open>SvnOps\<close>

record svn_ops =
  repo_path :: pystr
  before_update_rev :: "pystr option"
  after_update_rev :: "pystr option"

text \<open>\<open>SvnOps(repo_path)\<close>: the constructor leaves both revisions unset.\<close>

definition SvnOps :: "pystr \<Rightarrow> svn_ops" where
  "SvnOps p = \<lparr>repo_path = p, before_update_rev = None, after_update_rev = None\<rparr>"

text \<open>\<open>cleanup(aggressive)\<close>.\<close>

definition cleanup_cmd :: "pystr list" where
  "cleanup_cmd = [lit ''svn'', lit ''cleanup'']"

definition cleanup :: "'w env \<Rightarrow> svn_ops \<Rightarrow> bool \<Rightarrow> ('w, unit) io" where
  "cleanup env ops aggressive =
     bnd (run_cmd env cleanup_cmd (Some (repo_path ops)) False) (\<lambda>_.
       if aggressive
       then bnd (run_cmd env [lit ''svn'', lit ''cleanup'', lit ''--remove-unversioned'',
                   lit ''--remove-ignored''] (Some (repo_path ops)) False) (\<lambda>_. return ())
       else return ())"

text \<open>The working-copy-lock signatures that \<open>_svn\<close> looks for in stderr.\<close>

definition locked :: "pystr \<Rightarrow> bool" where
  "locked err = (contains (lit ''is locked'') err \<or> contains (lit ''E155004'') err
     \<or> contains (lit ''run '' @ [0x27] @ lit ''svn cleanup'' @ [0x27]) err)"

text \<open>\<open>_svn(args, check)\<close> (an Isabelle name cannot begin with an underscore).\<close>

definition svn :: "'w env \<Rightarrow> svn_ops \<Rightarrow> pystr list \<Rightarrow> bool \<Rightarrow> ('w, int \<times> pystr \<times> pystr) io" where
  "svn env ops args check =
     (let cmd = lit ''svn'' # args in
      bnd (run_cmd env cmd (Some (repo_path ops)) False) (\<lambda>(code, out, err).
      bnd (if code \<noteq> 0 \<and> locked err
           then bnd (cleanup env ops False) (\<lambda>_. run_cmd env cmd (Some (repo_path ops)) False)
           else return (code, out, err)) (\<lambda>(code, out, err).
      if check \<and> code \<noteq> 0
      then raise (VCSException (SvnFailed cmd code out err))
      else return (code, out, err))))"


text \<open>
  \<open>revert_local_changes()\<close>.  The loop over the status lines only touches the file
  system; removal failures are swallowed by the source, so each step gives a new world.
\<close>

fun remove_unversioned :: "'w env \<Rightarrow> svn_ops \<Rightarrow> pystr list \<Rightarrow> 'w \<Rightarrow> 'w" where
  "remove_unversioned env ops [] w = w"
| "remove_unversioned env ops (line # lines) w =
     (if strip line = [] then remove_unversioned env ops lines w
      else
        (let status = hd line;
             p = (if length line > 8 then strip (drop 8 line) else [])
         in if status \<noteq> 0x3F then remove_unversioned env ops lines w
            else if p = [] then remove_unversioned env ops lines w
            else
              (let full = os_path_join (repo_path ops) p
               in if path_isdir env full w
                  then remove_unversioned env ops lines (rmtree env full w)
                  else if path_exists env full w
                  then remove_unversioned env ops lines (os_remove env full w)
                  else remove_unversioned env ops lines w)))"

definition revert_local_changes :: "'w env \<Rightarrow> svn_ops \<Rightarrow> ('w, unit) io" where
  "revert_local_changes env ops =
     bnd (svn env ops [lit ''revert'', lit ''-R'', lit ''.''] False) (\<lambda>_.
     bnd (svn env ops [lit ''status'', lit ''--no-ignore''] False) (\<lambda>(code, out, err).
     (\<lambda>s. (Inr (), s\<lparr>world := remove_unversioned env ops (splitlines out) (world s)\<rparr>))))"

text \<open>\<open>get_externals()\<close>.\<close>

definition externals_cmd :: "pystr list" where
  "externals_cmd = [lit ''propget'', lit ''svn:externals'', lit ''-R'']"

fun externals_of_lines :: "svn_ops \<Rightarrow> pystr list \<Rightarrow> pystr list" where
  "externals_of_lines ops [] = []"
| "externals_of_lines ops (line # lines) =
     (if contains (lit '' - '') line
      then os_path_join (repo_path ops) (strip (before_sep (lit '' - '') line))
             # externals_of_lines ops lines
      else externals_of_lines ops lines)"

definition get_externals :: "'w env \<Rightarrow> svn_ops \<Rightarrow> ('w, pystr list) io" where
  "get_externals env ops =
     bnd (svn env ops externals_cmd False) (\<lambda>(code, out, err).
       return (externals_of_lines ops (splitlines out)))"

text \<open>
  Computations that recurse without a bound of their own take a recursion budget and
  give \<open>None\<close> when it is exhausted: the call does not return within that nesting depth.
\<close>

type_synonym ('w, 'a) pio = "'w st \<Rightarrow> ((exn + 'a) \<times> 'w st) option"

definition pbnd :: "('w, 'a) pio \<Rightarrow> ('a \<Rightarrow> ('w, 'b) pio) \<Rightarrow> ('w, 'b) pio" where
  "pbnd m f s =
     (case m s of None \<Rightarrow> None | Some (Inl e, s') \<Rightarrow> Some (Inl e, s') | Some (Inr x, s') \<Rightarrow> f x s')"

definition lift :: "('w, 'a) io \<Rightarrow> ('w, 'a) pio" where
  "lift m s = Some (m s)"

text \<open>
  \<open>get_all_externals()\<close>.  The closure \<open>scan\<close> shares \<open>visited\<close> and \<open>result\<close> with its
  recursive calls; here they travel with the state.  \<open>visited\<close> is kept in insertion
  order; the source only tests membership.  \<open>scan_loop\<close> is the \<open>for e in ex\<close> loop.
\<close>

type_synonym 'w scan_state = "pystr list \<times> pystr list \<times> 'w st"

fun scan_loop ::
  "(pystr \<Rightarrow> 'w scan_state \<Rightarrow> ((exn + unit) \<times> 'w scan_state) option) \<Rightarrow> 'w env \<Rightarrow> pystr list
     \<Rightarrow> 'w scan_state \<Rightarrow> ((exn + unit) \<times> 'w scan_state) option" where
  "scan_loop rec env [] \<sigma> = Some (Inr (), \<sigma>)"
| "scan_loop rec env (e # es) (visited, result, s) =
     (if path_isdir env e (world s)
      then (case rec e (visited, result @ [e], s) of
              None \<Rightarrow> None
            | Some (Inl x, \<sigma>') \<Rightarrow> Some (Inl x, \<sigma>')
            | Some (Inr _, \<sigma>') \<Rightarrow> scan_loop rec env es \<sigma>')
      else scan_loop rec env es (visited, result, s))"

fun scan :: "nat \<Rightarrow> 'w env \<Rightarrow> pystr \<Rightarrow> 'w scan_state \<Rightarrow> ((exn + unit) \<times> 'w scan_state) option" where
  "scan 0 env p \<sigma> = None"
| "scan (Suc n) env p (visited, result, s) =
     (if p \<in> set visited then Some (Inr (), (visited, result, s))
      else (case get_externals env (SvnOps p) s of
              (Inl x, s') \<Rightarrow> Some (Inl x, (visited @ [p], result, s'))
            | (Inr ex, s') \<Rightarrow>
                scan_loop (\<lambda>e \<sigma>. scan n env e \<sigma>) env ex (visited @ [p], result, s')))"

definition get_all_externals :: "nat \<Rightarrow> 'w env \<Rightarrow> svn_ops \<Rightarrow> ('w, pystr list) pio" where
  "get_all_externals n env ops s =
     (case scan n env (repo_path ops) ([], [], s) of
        None \<Rightarrow> None
      | Some (Inl x, (visited, result, s')) \<Rightarrow> Some (Inl x, s')
      | Some (Inr _, (visited, result, s')) \<Rightarrow> Some (Inr result, s'))"

text \<open>
  \<open>ensure_clean_workspace()\<close> and \<open>clean_externals()\<close> call each other; \<open>clean_loop\<close> is
  the \<open>for e in self.get_all_externals()\<close> loop of \<open>clean_externals\<close>.
\<close>

fun clean_loop :: "(svn_ops \<Rightarrow> ('w, unit) pio) \<Rightarrow> 'w env \<Rightarrow> pystr list \<Rightarrow> ('w, unit) pio" where
  "clean_loop rec env [] s = Some (Inr (), s)"
| "clean_loop rec env (e # es) s =
     (if path_isdir env e (world s)
      then (case rec (SvnOps e) s of
              None \<Rightarrow> None
            | Some (Inl x, s') \<Rightarrow> Some (Inl x, s')
            | Some (Inr _, s') \<Rightarrow> clean_loop rec env es s')
      else clean_loop rec env es s)"

function ensure_clean_workspace :: "nat \<Rightarrow> 'w env \<Rightarrow> svn_ops \<Rightarrow> ('w, unit) pio"
  and clean_externals :: "nat \<Rightarrow> 'w env \<Rightarrow> svn_ops \<Rightarrow> ('w, unit) pio" where
  "ensure_clean_workspace 0 env ops s = None"
| "ensure_clean_workspace (Suc n) env ops s =
     pbnd (lift (revert_local_changes env ops)) (\<lambda>_.
     pbnd (lift (cleanup env ops False)) (\<lambda>_.
     clean_externals n env ops)) s"
| "clean_externals n env ops s =
     pbnd (get_all_externals n env ops) (\<lambda>exts.
     clean_loop (\<lambda>ops' s'. ensure_clean_workspace n env ops' s') env exts) s"
  by pat_completeness auto
termination
  by (relation "measure (\<lambda>x. case x of Inl (n, _) \<Rightarrow> 2 * n | Inr (n, _) \<Rightarrow> 2 * n + 1)") auto

text \<open>\<open>get_current_url()\<close> and \<open>get_current_revision()\<close>.\<close>

definition get_current_url :: "'w env \<Rightarrow> svn_ops \<Rightarrow> ('w, pystr) io" where
  "get_current_url env ops =
     bnd (svn env ops [lit ''info'', lit ''--show-item'', lit ''url''] True) (\<lambda>(code, out, err).
       return (strip out))"

definition get_current_revision :: "'w env \<Rightarrow> svn_ops \<Rightarrow> ('w, pystr) io" where
  "get_current_revision env ops =
     bnd (svn env ops [lit ''info'', lit ''--show-item'', lit ''revision''] True) (\<lambda>(code, out, err).
       return (strip out))"

text \<open>The parts of the \<open>ElementTree\<close> interface the code uses, on direct children.\<close>

definition xml_find :: "xml \<Rightarrow> pystr \<Rightarrow> xml option" where
  "xml_find e t = List.find (\<lambda>c. tag c = t) (children e)"

definition xml_findall :: "xml \<Rightarrow> pystr \<Rightarrow> xml list" where
  "xml_findall e t = filter (\<lambda>c. tag c = t) (children e)"

definition xml_findtext :: "xml \<Rightarrow> pystr \<Rightarrow> pystr \<Rightarrow> pystr" where
  "xml_findtext e t dflt =
     (case xml_find e t of
        None \<Rightarrow> dflt
      | Some c \<Rightarrow> (case elem_text c of None \<Rightarrow> [] | Some x \<Rightarrow> x))"

definition xml_get :: "xml \<Rightarrow> pystr \<Rightarrow> pystr \<Rightarrow> pystr" where
  "xml_get e k dflt = (case map_of (attrib e) k of None \<Rightarrow> dflt | Some v \<Rightarrow> v)"

text \<open>\<open>get_rev_time(revision)\<close>.\<close>

definition get_rev_time :: "'w env \<Rightarrow> svn_ops \<Rightarrow> pystr \<Rightarrow> ('w, pystr) io" where
  "get_rev_time env ops rv =
     bnd (svn env ops [lit ''log'', lit ''--xml'', lit ''-r'', rv] True) (\<lambda>(code, out, err).
       case fromstring env out of
         None \<Rightarrow> raise ParseError
       | Some root \<Rightarrow>
           (case xml_find root (lit ''logentry'') of
              None \<Rightarrow> raise (VCSException (NoRevDate rv))
            | Some entry \<Rightarrow> return (strip (xml_findtext entry (lit ''date'') []))))"

text \<open>
  \<open>update_to(target)\<close>.  The object carries \<open>before_update_rev\<close> and \<open>after_update_rev\<close>,
  so it is returned with the state, also when the call raises part-way.
  \<open>target.upper() == "HEAD"\<close> compares case-insensitively; only the ASCII letters
  have \<open>H\<close>, \<open>E\<close>, \<open>A\<close> or \<open>D\<close> as their upper case.
\<close>

definition ascii_upper :: "nat \<Rightarrow> nat" where
  "ascii_upper c = (if 0x61 \<le> c \<and> c \<le> 0x7A then c - 0x20 else c)"

definition is_head :: "pystr option \<Rightarrow> bool" where
  "is_head target = (case target of None \<Rightarrow> True | Some t \<Rightarrow> map ascii_upper t = lit ''HEAD'')"

definition update_to ::
  "nat \<Rightarrow> 'w env \<Rightarrow> pystr option \<Rightarrow> svn_ops \<Rightarrow> 'w st \<Rightarrow> ((exn + unit) \<times> svn_ops \<times> 'w st) option" where
  "update_to n env target ops s =
     (case get_current_revision env ops s of
        (Inl x, s1) \<Rightarrow> Some (Inl x, ops, s1)
      | (Inr before, s1) \<Rightarrow>
          (let ops1 = ops\<lparr>before_update_rev := Some before\<rparr> in
           case ensure_clean_workspace n env ops1 s1 of
             None \<Rightarrow> None
           | Some (Inl x, s2) \<Rightarrow> Some (Inl x, ops1, s2)
           | Some (Inr _, s2) \<Rightarrow>
               (case (if is_head target
                      then svn env ops1 [lit ''update''] True s2
                      else svn env ops1 [lit ''update'', lit ''-r'', the target] True s2) of
                  (Inl x, s3) \<Rightarrow> Some (Inl x, ops1, s3)
                | (Inr _, s3) \<Rightarrow>
                    (case get_current_revision env ops1 s3 of
                       (Inl x, s4) \<Rightarrow> Some (Inl x, ops1, s4)
                     | (Inr after, s4) \<Rightarrow>
                         Some (Inr (), ops1\<lparr>after_update_rev := Some after\<rparr>, s4)))))"

section \<open>Change records\<close>

record file_change =
  path :: pystr
  action :: pystr
  diff :: "pystr option"

record revision_change =
  revision :: pystr
  author :: pystr
  date :: pystr
  message :: pystr
  files :: "file_change list"

record update_result =
  from_rev :: pystr
  to_rev :: pystr
  revision_changes :: "revision_change list"

text \<open>
  Python's slice \<open>xs[:n]\<close> for an integer \<open>n\<close>: a negative \<open>n\<close> counts from the end.
\<close>

definition slice_to :: "'a list \<Rightarrow> int \<Rightarrow> 'a list" where
  "slice_to xs n = (if n < 0 then take (nat (int (length xs) + n)) xs else take (nat n) xs)"

text \<open>
  The marker line of \<open>get_diff\<close>: three dots, an opening parenthesis, the two code
  points U+5269 U+4F59, a space, the number, a space, the four code points U+884C
  U+5DF2 U+622A U+65AD and a closing parenthesis.
\<close>

definition truncation_marker :: "int \<Rightarrow> pystr" where
  "truncation_marker k =
     lit ''...('' @ [0x5269, 0x4F59] @ lit '' '' @ str_of_int k @ lit '' ''
       @ [0x884C, 0x5DF2, 0x622A, 0x65AD] @ lit '')''"

text \<open>\<open>get_diff(revision, file_path, max_lines)\<close>.\<close>

definition diff_args :: "pystr \<Rightarrow> pystr option \<Rightarrow> pystr list" where
  "diff_args rv file_path =
     [lit ''diff'', lit ''-c'', rv]
       @ (case file_path of None \<Rightarrow> [] | Some f \<Rightarrow> if f = [] then [] else [f])"

definition get_diff :: "'w env \<Rightarrow> svn_ops \<Rightarrow> pystr \<Rightarrow> pystr option \<Rightarrow> int \<Rightarrow> ('w, pystr) io" where
  "get_diff env ops rv file_path max_lines =
     bnd (svn env ops (diff_args rv file_path) True) (\<lambda>(code, out, err).
       let lines = splitlines out
       in if int (length lines) > max_lines
          then return (join [0x0A]
                 (slice_to lines max_lines
                    @ [truncation_marker (int (length lines) - max_lines)]))
          else return out)"

text \<open>The log entries of a parsed \<open>svn log --xml -v\<close> document, as \<open>RevisionChange\<close> records.\<close>

fun files_of_paths :: "xml list \<Rightarrow> file_change list" where
  "files_of_paths [] = []"
| "files_of_paths (p # ps) =
     (let act = xml_get p (lit ''action'') (lit ''?'');
          txt = strip (case elem_text p of None \<Rightarrow> [] | Some x \<Rightarrow> x)
      in if txt \<noteq> []
         then \<lparr>path = txt, action = act, diff = None\<rparr> # files_of_paths ps
         else files_of_paths ps)"

definition change_of_entry :: "xml \<Rightarrow> revision_change" where
  "change_of_entry entry =
     \<lparr>revision = strip (xml_get entry (lit ''revision'') []),
      author = strip (xml_findtext entry (lit ''author'') []),
      date = strip (xml_findtext entry (lit ''date'') []),
      message = strip (xml_findtext entry (lit ''msg'') []),
      files = (case xml_find entry (lit ''paths'') of
                 None \<Rightarrow> []
               | Some ps \<Rightarrow> files_of_paths (xml_findall ps (lit ''path'')))\<rparr>"

text \<open>\<open>get_external_revision_list_by_time(t_start, t_end)\<close>.\<close>

definition truthy :: "pystr option \<Rightarrow> bool" where
  "truthy x = (case x of None \<Rightarrow> False | Some v \<Rightarrow> v \<noteq> [])"

definition time_range :: "pystr option \<Rightarrow> pystr \<Rightarrow> pystr" where
  "time_range t_start t_end =
     (if truthy t_start
      then lit ''{'' @ the t_start @ lit ''}:{'' @ t_end @ lit ''}''
      else lit ''{'' @ t_end @ lit ''}'')"

definition get_external_revision_list_by_time ::
  "'w env \<Rightarrow> svn_ops \<Rightarrow> pystr option \<Rightarrow> pystr \<Rightarrow> ('w, revision_change list) io" where
  "get_external_revision_list_by_time env ops t_start t_end =
     bnd (svn env ops [lit ''log'', lit ''-v'', lit ''--xml'', lit ''-r'', time_range t_start t_end] False)
       (\<lambda>(code, out, err).
          case fromstring env (if out = [] then lit ''<log/>'' else out) of
            None \<Rightarrow> raise ParseError
          | Some root \<Rightarrow> return (map change_of_entry (xml_findall root (lit ''logentry''))))"

text \<open>
  The \<open>include_diff\<close> loops of \<open>collect_change_summary\<close>: every file of every revision
  gets the diff that \<open>get_diff\<close> returns for it.
\<close>

fun attach_file_diffs ::
  "'w env \<Rightarrow> svn_ops \<Rightarrow> pystr \<Rightarrow> int \<Rightarrow> file_change list \<Rightarrow> ('w, file_change list) io" where
  "attach_file_diffs env ops rv max_lines [] = return []"
| "attach_file_diffs env ops rv max_lines (f # fs) =
     bnd (get_diff env ops rv (Some (path f)) max_lines) (\<lambda>d.
     bnd (attach_file_diffs env ops rv max_lines fs) (\<lambda>fs'.
     return (f\<lparr>diff := Some d\<rparr> # fs')))"

fun attach_diffs ::
  "'w env \<Rightarrow> svn_ops \<Rightarrow> int \<Rightarrow> revision_change list \<Rightarrow> ('w, revision_change list) io" where
  "attach_diffs env ops max_lines [] = return []"
| "attach_diffs env ops max_lines (r # rs) =
     bnd (attach_file_diffs env ops (revision r) max_lines (files r)) (\<lambda>fs'.
     bnd (attach_diffs env ops max_lines rs) (\<lambda>rs'.
     return (r\<lparr>files := fs'\<rparr> # rs')))"

text \<open>
  The summary of \<open>collect_change_summary\<close>: the dictionary \<open>{"main": ..., "ext": {...}}\<close>.
  The inner dictionary is keyed by the external's URL and keeps insertion order.
\<close>

record change_summary =
  main :: "revision_change list"
  ext :: "(pystr \<times> revision_change list) list"

fun collect_externals ::
  "'w env \<Rightarrow> bool \<Rightarrow> int \<Rightarrow> pystr \<Rightarrow> pystr \<Rightarrow> pystr list \<Rightarrow> (pystr \<times> revision_change list) list
     \<Rightarrow> ('w, (pystr \<times> revision_change list) list) io" where
  "collect_externals env include_diff max_lines t_start t_end [] acc = return acc"
| "collect_externals env include_diff max_lines t_start t_end (e # es) acc =
     (let ext_ops = SvnOps e in
      bnd (get_current_url env ext_ops) (\<lambda>ext_url.
      bnd (get_external_revision_list_by_time env ext_ops (Some t_start) t_end) (\<lambda>ex_list.
      bnd (if include_diff then attach_diffs env ext_ops max_lines ex_list else return ex_list)
        (\<lambda>ex_list'.
      collect_externals env include_diff max_lines t_start t_end es
        (AList.update ext_url ex_list' acc)))))"

text \<open>\<open>collect_change_summary(start_time, end_time, include_diff, max_diff_lines, include_externals)\<close>.\<close>

definition collect_change_summary ::
  "nat \<Rightarrow> 'w env \<Rightarrow> svn_ops \<Rightarrow> pystr option \<Rightarrow> pystr option \<Rightarrow> bool \<Rightarrow> int \<Rightarrow> bool
     \<Rightarrow> ('w, change_summary) pio" where
  "collect_change_summary n env ops start_time end_time include_diff max_diff_lines include_externals =
     pbnd (lift (case start_time of
                   None \<Rightarrow>
                     if \<not> truthy (before_update_rev ops)
                     then raise (VCSException BeforeRevUnset)
                     else get_rev_time env ops (the (before_update_rev ops))
                 | Some t \<Rightarrow> return t)) (\<lambda>t_start.
     pbnd (lift (case end_time of
                   None \<Rightarrow> (\<lambda>s. (Inr (utcnow_isoformat env (world s) @ lit ''Z''), s))
                 | Some t \<Rightarrow> return t)) (\<lambda>t_end.
     pbnd (lift (get_external_revision_list_by_time env ops (Some t_start) t_end)) (\<lambda>main0.
     pbnd (lift (if include_diff then attach_diffs env ops max_diff_lines main0 else return main0))
       (\<lambda>main1.
     pbnd (if include_externals
           then pbnd (get_all_externals n env ops) (\<lambda>exts.
                  lift (collect_externals env include_diff max_diff_lines t_start t_end exts []))
           else lift (return [])) (\<lambda>ext1.
     lift (return \<lparr>main = main1, ext = ext1\<rparr>))))))"

text \<open>
  \<open>int(s)\<close> on a string: surrounding white space is dropped, one sign is allowed, and
  the digits may be grouped by single underscores.  \<open>None\<close> stands for \<open>ValueError\<close>.
  Only the ASCII digits are modelled.
\<close>

definition is_digit :: "nat \<Rightarrow> bool" where
  "is_digit c = (0x30 \<le> c \<and> c \<le> 0x39)"

fun int_digits :: "nat \<Rightarrow> pystr \<Rightarrow> nat option" where
  "int_digits acc [] = Some acc"
| "int_digits acc [c] = (if is_digit c then Some (10 * acc + (c - 0x30)) else None)"
| "int_digits acc (c # d # cs) =
     (if is_digit c then int_digits (10 * acc + (c - 0x30)) (d # cs)
      else if c = 0x5F \<and> is_digit d then int_digits (10 * acc + (d - 0x30)) cs
      else None)"

definition py_int :: "pystr \<Rightarrow> int option" where
  "py_int s =
     (let t = strip s;
          neg = (t \<noteq> [] \<and> hd t = 0x2D);
          u = (if t \<noteq> [] \<and> (hd t = 0x2B \<or> hd t = 0x2D) then tl t else t)
      in case u of
           [] \<Rightarrow> None
         | c # r \<Rightarrow>
             if is_digit c
             then map_option (\<lambda>k. if neg then - int k else int k) (int_digits (c - 0x30) r)
             else None)"

text \<open>The sort key \<open>_key\<close> of \<open>collect_update_result\<close>.\<close>

definition revision_key :: "revision_change \<Rightarrow> int" where
  "revision_key c = (case py_int (revision c) of Some i \<Rightarrow> i | None \<Rightarrow> 0)"

text \<open>
  The tail of \<open>collect_update_result\<close>: the main changes, then every list of the \<open>ext\<close>
  dictionary in its order, sorted by \<open>list.sort(key=_key)\<close> (a stable sort).
\<close>

definition merge_changes :: "change_summary \<Rightarrow> revision_change list" where
  "merge_changes summary = sort_key revision_key (main summary @ concat (map snd (ext summary)))"

text \<open>\<open>collect_update_result(include_diff, max_diff_lines, include_externals)\<close>.\<close>

definition collect_update_result ::
  "nat \<Rightarrow> 'w env \<Rightarrow> svn_ops \<Rightarrow> bool \<Rightarrow> int \<Rightarrow> bool \<Rightarrow> ('w, update_result) pio" where
  "collect_update_result n env ops include_diff max_diff_lines include_externals =
     (if \<not> truthy (before_update_rev ops) \<or> \<not> truthy (after_update_rev ops)
      then lift (raise (VCSException UpdateToNotRun))
      else
        pbnd (lift (get_rev_time env ops (the (before_update_rev ops)))) (\<lambda>t_start.
        pbnd (lift (get_rev_time env ops (the (after_update_rev ops)))) (\<lambda>t_end.
        pbnd (collect_change_summary n env ops (Some t_start) (Some t_end) include_diff
                max_diff_lines include_externals) (\<lambda>summary.
        lift (return \<lparr>from_rev = the (before_update_rev ops),
                       to_rev = the (after_update_rev ops),
                       revision_changes = merge_changes summary\<rparr>)))))"

section \<open>Sparse profiles\<close>

text \<open>
  The profile document: \<open>projects\<close> maps a name to a project; a key that is absent is
  \<open>None\<close>.  \<open>profile_projects\<close> is \<open>None\<close> when the profile has no \<open>projects\<close> dictionary.
\<close>

record path_rule =
  rule_path :: "pystr option"
  rule_depth :: "pystr option"





definition expand_cmd :: "path_rule \<Rightarrow> pystr list" where
  "expand_cmd item =
     [lit ''update'', strip_slash (the (rule_path item)), lit ''--depth'',
      (case rule_depth item of None \<Rightarrow> lit ''infinity'' | Some d \<Rightarrow> d)]"





section \<open>The Git sync engine\<close>

text \<open>\<open>s.split()\<close>: the maximal runs of code points that are not white space.\<close>

fun split_ws_from :: "pystr \<Rightarrow> pystr \<Rightarrow> pystr list" where
  "split_ws_from cur [] = (if cur = [] then [] else [cur])"
| "split_ws_from cur (c # cs) =
     (if is_space c
      then (if cur = [] then split_ws_from [] cs else cur # split_ws_from [] cs)
      else split_ws_from (cur @ [c]) cs)"

definition split_ws :: "pystr \<Rightarrow> pystr list" where
  "split_ws s = split_ws_from [] s"

text \<open>\<open>s.split(sep, k)\<close> for a one-character separator: at most \<open>k\<close> splits, from the left.\<close>

fun split_max :: "nat \<Rightarrow> nat \<Rightarrow> pystr \<Rightarrow> pystr \<Rightarrow> pystr list" where
  "split_max sep k cur [] = [cur]"
| "split_max sep 0 cur (c # cs) = [cur @ c # cs]"
| "split_max sep (Suc k) cur (c # cs) =
     (if c = sep then cur # split_max sep k [] cs else split_max sep (Suc k) (cur @ [c]) cs)"

text \<open>\<open>get_default_ssh_key()\<close> and \<open>_build_ssh_env(ssh_key)\<close>; the latter gives the \<open>GIT_SSH_COMMAND\<close>.\<close>

definition get_default_ssh_key :: "'w env \<Rightarrow> 'w \<Rightarrow> exn + pystr" where
  "get_default_ssh_key env w =
     (let env_key = getenv env (lit ''PXTA_SSH_KEY'') in
      if truthy env_key \<and> path_exists env (the env_key) w then Inr (the env_key)
      else if path_exists env (expanduser env (lit ''~/.ssh/id_ed25519'')) w
      then Inr (expanduser env (lit ''~/.ssh/id_ed25519''))
      else if path_exists env (expanduser env (lit ''~/.ssh/id_rsa'')) w
      then Inr (expanduser env (lit ''~/.ssh/id_rsa''))
      else Inl (GitError NoSshKey))"

definition build_ssh_env :: "'w env \<Rightarrow> pystr option \<Rightarrow> 'w \<Rightarrow> exn + pystr" where
  "build_ssh_env env ssh_key w =
     (case (if truthy ssh_key then Inr (the ssh_key) else get_default_ssh_key env w) of
        Inl x \<Rightarrow> Inl x
      | Inr k \<Rightarrow>
          if \<not> path_exists env k w then Inl (GitError (SshKeyMissing k))
          else Inr (lit ''ssh -i '' @ [0x27] @ k @ [0x27] @ lit '' -o StrictHostKeyChecking=no ''
                 @ lit ''-o UserKnownHostsFile=''
                 @ (if os_name env = lit ''nt'' then lit ''NUL'' else lit ''/dev/null'')))"

text \<open>\<open>run_git(args, cwd, ssh_key)\<close>.\<close>

definition run_git :: "'w env \<Rightarrow> pystr list \<Rightarrow> pystr option \<Rightarrow> pystr option \<Rightarrow> ('w, pystr) io" where
  "run_git env args cwd ssh_key s =
     (let cmd = lit ''git'' # args in
      case build_ssh_env env ssh_key (world s) of
        Inl x \<Rightarrow> (Inl x, s)
      | Inr ssh_command \<Rightarrow>
          (case subprocess_run env cmd cwd (Some ssh_command) (world s) of
             ((returncode, out, err), w') \<Rightarrow>
               (let s' = s\<lparr>world := w', trace := trace s @ [(cmd, cwd)]\<rparr> in
                if returncode \<noteq> 0 then (Inl (GitCommandError (strip err)), s')
                else (Inr (strip out), s'))))"

text \<open>\<open>_ensure_repo(path)\<close>.\<close>

definition ensure_repo :: "'w env \<Rightarrow> pystr \<Rightarrow> ('w, unit) io" where
  "ensure_repo env p s =
     (if \<not> path_exists env (os_path_join p (lit ''.git'')) (world s)
      then (Inl (GitError (NotAGitRepo p)), s)
      else (Inr (), s))"

text \<open>The basic operations: each checks the repository and runs one or two commands.\<close>

definition in_repo :: "'w env \<Rightarrow> pystr \<Rightarrow> pystr list \<Rightarrow> pystr option \<Rightarrow> ('w, unit) io" where
  "in_repo env p args ssh_key =
     bnd (ensure_repo env p) (\<lambda>_. bnd (run_git env args (Some p) ssh_key) (\<lambda>_. return ()))"

definition fetch :: "'w env \<Rightarrow> pystr \<Rightarrow> pystr option \<Rightarrow> ('w, unit) io" where
  "fetch env p ssh_key = in_repo env p [lit ''fetch'', lit ''--all''] ssh_key"

definition checkout :: "'w env \<Rightarrow> pystr \<Rightarrow> pystr \<Rightarrow> pystr option \<Rightarrow> ('w, unit) io" where
  "checkout env p target ssh_key = in_repo env p [lit ''checkout'', target] ssh_key"

definition pull :: "'w env \<Rightarrow> pystr \<Rightarrow> pystr option \<Rightarrow> ('w, unit) io" where
  "pull env p ssh_key = in_repo env p [lit ''pull''] ssh_key"

definition submodule_sync :: "'w env \<Rightarrow> pystr \<Rightarrow> pystr option \<Rightarrow> ('w, unit) io" where
  "submodule_sync env p ssh_key =
     in_repo env p [lit ''submodule'', lit ''sync'', lit ''--recursive''] ssh_key"

definition submodule_update :: "'w env \<Rightarrow> pystr \<Rightarrow> pystr option \<Rightarrow> ('w, unit) io" where
  "submodule_update env p ssh_key =
     in_repo env p [lit ''submodule'', lit ''update'', lit ''--init'', lit ''--recursive''] ssh_key"

definition lfs_install :: "'w env \<Rightarrow> pystr \<Rightarrow> pystr option \<Rightarrow> ('w, unit) io" where
  "lfs_install env p ssh_key = in_repo env p [lit ''lfs'', lit ''install''] ssh_key"

definition lfs_pull :: "'w env \<Rightarrow> pystr \<Rightarrow> pystr option \<Rightarrow> ('w, unit) io" where
  "lfs_pull env p ssh_key =
     bnd (ensure_repo env p) (\<lambda>_.
     bnd (run_git env [lit ''lfs'', lit ''fetch'', lit ''--all''] (Some p) ssh_key) (\<lambda>_.
     bnd (run_git env [lit ''lfs'', lit ''pull''] (Some p) ssh_key) (\<lambda>_. return ())))"

definition lfs_pull_all_submodules :: "'w env \<Rightarrow> pystr \<Rightarrow> pystr option \<Rightarrow> ('w, unit) io" where
  "lfs_pull_all_submodules env p ssh_key =
     in_repo env p [lit ''submodule'', lit ''foreach'', lit ''--recursive'', lit ''git lfs pull'']
       ssh_key"

definition reset_hard_cmd :: "pystr list" where
  "reset_hard_cmd = [lit ''reset'', lit ''--hard'', lit ''HEAD'']"

definition clean_untracked_cmd :: "pystr list" where
  "clean_untracked_cmd = [lit ''clean'', lit ''-fd'']"

definition submodule_reset_cmd :: "pystr list" where
  "submodule_reset_cmd =
     [lit ''submodule'', lit ''foreach'', lit ''--recursive'', lit ''git reset --hard HEAD'']"

definition submodule_clean_cmd :: "pystr list" where
  "submodule_clean_cmd =
     [lit ''submodule'', lit ''foreach'', lit ''--recursive'', lit ''git clean -fd'']"

definition reset_hard :: "'w env \<Rightarrow> pystr \<Rightarrow> pystr option \<Rightarrow> ('w, unit) io" where
  "reset_hard env p ssh_key = in_repo env p reset_hard_cmd ssh_key"

definition clean_untracked :: "'w env \<Rightarrow> pystr \<Rightarrow> pystr option \<Rightarrow> ('w, unit) io" where
  "clean_untracked env p ssh_key = in_repo env p clean_untracked_cmd ssh_key"

text \<open>\<open>clone(url, dest, branch, recursive, lfs, ssh_key)\<close>.\<close>

definition clone ::
  "'w env \<Rightarrow> pystr \<Rightarrow> pystr \<Rightarrow> pystr option \<Rightarrow> bool \<Rightarrow> bool \<Rightarrow> pystr option \<Rightarrow> ('w, unit) io" where
  "clone env url dest branch recursive lfs ssh_key =
     (let args = [lit ''clone'', url, dest]
                   @ (if truthy branch then [lit ''-b'', the branch] else [])
                   @ (if recursive then [lit ''--recursive''] else [])
      in bnd (run_git env args None ssh_key) (\<lambda>_.
         if lfs then bnd (lfs_install env dest ssh_key) (\<lambda>_. lfs_pull env dest ssh_key)
         else return ()))"

text \<open>\<open>get_head(path)\<close>.\<close>

definition get_head :: "'w env \<Rightarrow> pystr \<Rightarrow> ('w, pystr) io" where
  "get_head env p =
     bnd (ensure_repo env p) (\<lambda>_. run_git env [lit ''rev-parse'', lit ''HEAD''] (Some p) None)"

text \<open>
  \<open>get_commits_between(path, a, b)\<close>.  A commit is the dictionary with the keys
  \<open>commit\<close>, \<open>author\<close>, \<open>email\<close>, \<open>date\<close> and \<open>message\<close>; a log line with fewer than five
  fields fails the unpacking with \<open>ValueError\<close>.
\<close>

type_synonym commit_info = "(pystr \<times> pystr) list"

fun commits_of_lines :: "pystr list \<Rightarrow> exn + commit_info list" where
  "commits_of_lines [] = Inr []"
| "commits_of_lines (line # lines) =
     (case split_max 0x7C 4 [] line of
        [h, an, ae, ad, msg] \<Rightarrow>
          (case commits_of_lines lines of
             Inl x \<Rightarrow> Inl x
           | Inr cs \<Rightarrow>
               Inr ([(lit ''commit'', h), (lit ''author'', an), (lit ''email'', ae),
                     (lit ''date'', ad), (lit ''message'', msg)] # cs))
      | _ \<Rightarrow> Inl ValueError)"

definition get_commits_between :: "'w env \<Rightarrow> pystr \<Rightarrow> pystr \<Rightarrow> pystr \<Rightarrow> ('w, commit_info list) io" where
  "get_commits_between env p a b =
     (if a = b then return []
      else bnd (run_git env [lit ''log'', a @ lit ''..'' @ b,
                  lit ''--pretty=format:%H|%an|%ae|%ad|%s'', lit ''--date=iso''] (Some p) None)
             (\<lambda>out. case commits_of_lines (splitlines out) of
                       Inl x \<Rightarrow> raise x
                     | Inr cs \<Rightarrow> return cs))"

text \<open>\<open>get_submodule_states(path)\<close>: the dictionary from submodule path to commit.\<close>

fun states_of_lines :: "pystr list \<Rightarrow> (pystr \<times> pystr) list \<Rightarrow> (pystr \<times> pystr) list" where
  "states_of_lines [] acc = acc"
| "states_of_lines (line # lines) acc =
     (case split_ws (strip line) of
        c # sub_path # _ \<Rightarrow>
          states_of_lines lines
            (AList.update sub_path (dropWhile (\<lambda>x. x = 0x2B \<or> x = 0x2D) c) acc)
      | _ \<Rightarrow> states_of_lines lines acc)"

definition get_submodule_states :: "'w env \<Rightarrow> pystr \<Rightarrow> ('w, (pystr \<times> pystr) list) io" where
  "get_submodule_states env p =
     bnd (ensure_repo env p) (\<lambda>_.
     bnd (run_git env [lit ''submodule'', lit ''status'', lit ''--recursive''] (Some p) None)
       (\<lambda>out. return (states_of_lines (splitlines out) [])))"

text \<open>The result of \<open>update_repo\<close>: \<open>{"repo": {...}, "submodules": [...]}\<close>.\<close>

record commit_range =
  range_path :: pystr
  range_from :: "pystr option"
  range_to :: pystr
  range_commits :: "commit_info list"

record git_sync_result =
  repo :: commit_range
  submodules :: "commit_range list"

text \<open>The final loop of \<open>update_repo\<close> over \<open>subs_after.items()\<close>.\<close>

fun changed_submodules ::
  "'w env \<Rightarrow> pystr \<Rightarrow> (pystr \<times> pystr) list \<Rightarrow> (pystr \<times> pystr) list \<Rightarrow> ('w, commit_range list) io" where
  "changed_submodules env dest subs_before [] = return []"
| "changed_submodules env dest subs_before ((sub_path, new_commit) # rest) =
     (let old_commit = map_of subs_before sub_path in
      if truthy old_commit \<and> the old_commit \<noteq> new_commit
      then bnd (get_commits_between env (os_path_join dest sub_path) (the old_commit) new_commit)
             (\<lambda>cs.
           bnd (changed_submodules env dest subs_before rest) (\<lambda>more.
           return (\<lparr>range_path = sub_path, range_from = old_commit, range_to = new_commit,
                     range_commits = cs\<rparr> # more)))
      else changed_submodules env dest subs_before rest)"

text \<open>
  \<open>update_repo(url, dest, branch, recursive, lfs, ssh_key, *, reset, clean)\<close>.  The two
  keyword arguments \<open>reset\<close> and \<open>clean\<close> are \<open>None\<close> when the caller does not pass them;
  the signature then supplies its default, which is \<open>True\<close> for both.
\<close>

definition reset_default :: bool where
  "reset_default = True"

definition clean_default :: bool where
  "clean_default = True"

definition update_existing ::
  "'w env \<Rightarrow> pystr \<Rightarrow> pystr option \<Rightarrow> bool \<Rightarrow> bool \<Rightarrow> pystr option \<Rightarrow> bool \<Rightarrow> bool \<Rightarrow> ('w, unit) io" where
  "update_existing env dest branch recursive lfs ssh_key reset clean =
     bnd (if reset
          then bnd (reset_hard env dest ssh_key) (\<lambda>_.
               if recursive
               then bnd (run_git env submodule_reset_cmd (Some dest) ssh_key) (\<lambda>_. return ())
               else return ())
          else return ()) (\<lambda>_.
     bnd (if clean
          then bnd (clean_untracked env dest ssh_key) (\<lambda>_.
               if recursive
               then bnd (run_git env submodule_clean_cmd (Some dest) ssh_key) (\<lambda>_. return ())
               else return ())
          else return ()) (\<lambda>_.
     bnd (if truthy branch then checkout env dest (the branch) ssh_key else return ()) (\<lambda>_.
     bnd (fetch env dest ssh_key) (\<lambda>_.
     bnd (pull env dest ssh_key) (\<lambda>_.
     bnd (if recursive
          then bnd (submodule_sync env dest ssh_key) (\<lambda>_. submodule_update env dest ssh_key)
          else return ()) (\<lambda>_.
     if lfs
     then bnd (lfs_install env dest ssh_key) (\<lambda>_.
          bnd (lfs_pull env dest ssh_key) (\<lambda>_.
          lfs_pull_all_submodules env dest ssh_key))
     else return ()))))))"

definition update_repo ::
  "'w env \<Rightarrow> pystr \<Rightarrow> pystr \<Rightarrow> pystr option \<Rightarrow> bool \<Rightarrow> bool \<Rightarrow> pystr option \<Rightarrow> bool option
     \<Rightarrow> bool option \<Rightarrow> ('w, git_sync_result) io" where
  "update_repo env url dest branch recursive lfs ssh_key reset_arg clean_arg =
     (let reset = (case reset_arg of None \<Rightarrow> reset_default | Some b \<Rightarrow> b);
          clean = (case clean_arg of None \<Rightarrow> clean_default | Some b \<Rightarrow> b)
      in
      bnd (\<lambda>s. if path_exists env dest (world s)
                then bnd (get_head env dest) (\<lambda>h. return (Some h)) s
                else (Inr None, s)) (\<lambda>main_before.
      bnd (if truthy main_before then get_submodule_states env dest else return []) (\<lambda>subs_before.
      bnd (\<lambda>s. if \<not> path_exists env dest (world s)
                then clone env url dest branch recursive lfs ssh_key s
                else update_existing env dest branch recursive lfs ssh_key reset clean s) (\<lambda>_.
      bnd (get_head env dest) (\<lambda>main_after.
      bnd (get_submodule_states env dest) (\<lambda>subs_after.
      bnd (if truthy main_before
           then get_commits_between env dest (the main_before) main_after
           else return []) (\<lambda>main_commits.
      bnd (changed_submodules env dest subs_before subs_after) (\<lambda>subs.
      return \<lparr>repo = \<lparr>range_path = dest, range_from = main_before, range_to = main_after,
                       range_commits = main_commits\<rparr>,
              submodules = subs\<rparr>))))))))"

text \<open>A string without a line boundary.\<close>

definition nolb :: "pystr \<Rightarrow> bool" where
  "nolb l = (\<forall>c \<in> set l. \<not> is_linebreak c)"

text \<open>
  Reading the process log: the path of a depth-expanding update
  \<open>svn update <rel> --depth <d>\<close>, and the paths of all such updates of a log, in the
  order in which they were started.
\<close>

definition update_target :: "pystr list \<Rightarrow> pystr option" where
  "update_target c =
     (case c of
        [a, b, rel, d, e] \<Rightarrow>
          if a = lit ''svn'' \<and> b = lit ''update'' \<and> d = lit ''--depth'' then Some rel else None
      | _ \<Rightarrow> None)"

definition expansions :: "(pystr list \<times> pystr option) list \<Rightarrow> pystr list" where
  "expansions tr = List.map_filter (\<lambda>c. update_target (fst c)) tr"


section \<open>Example worlds\<close>

text \<open>
  A working copy that is locked until \<open>svn cleanup\<close> has run: the world is the flag
  "cleaned".  Every other command fails with the lock signature before the cleanup and
  succeeds after it.
\<close>

definition lock_env :: "bool env" where
  "lock_env = \<lparr>subprocess_run = (\<lambda>args cwd ssh w.
       if args = cleanup_cmd then ((0, [], []), True)
       else if w then ((0, lit ''ok'', []), w)
       else ((1, [], lit ''svn: E155004: locked''), w)),
     path_isdir = (\<lambda>p w. False), path_exists = (\<lambda>p w. False),
     rmtree = (\<lambda>p w. w), os_remove = (\<lambda>p w. w), makedirs = (\<lambda>p w. (True, w)),
     fromstring = (\<lambda>s. None), utcnow_isoformat = (\<lambda>w. []), getenv = (\<lambda>k. None),
     expanduser = (\<lambda>p. p), os_name = lit ''posix''\<rparr>"



text \<open>
  A working copy \<open>wc\<close> with one external \<open>wc/lib\<close>.  The log of the main repository over
  any window has the revisions 5 and 7, the log of the external has revision 6; the
  parser is given by its value on the three documents that occur.
\<close>

definition log_entry :: "pystr \<Rightarrow> xml" where
  "log_entry r = Element (lit ''logentry'') [(lit ''revision'', r)] None
     [Element (lit ''author'') [] (Some (lit ''dev'')) [],
      Element (lit ''date'') [] (Some (lit ''2025-12-10'')) [],
      Element (lit ''msg'') [] (Some (lit ''change'')) []]"

definition change :: "pystr \<Rightarrow> revision_change" where
  "change r = \<lparr>revision = r, author = lit ''dev'', date = lit ''2025-12-10'',
     message = lit ''change'', files = []\<rparr>"

definition merge_env :: "unit env" where
  "merge_env = \<lparr>subprocess_run = (\<lambda>args cwd ssh w.
       if args = lit ''svn'' # externals_cmd
       then (if cwd = Some (lit ''wc'') then ((0, lit ''lib - ^/lib lib'', []), w) else ((0, [], []), w))
       else if take 3 args = [lit ''svn'', lit ''log'', lit ''-v'']
       then (if cwd = Some (lit ''wc'') then ((0, lit ''<main>'', []), w) else ((0, lit ''<ext>'', []), w))
       else if take 3 args = [lit ''svn'', lit ''log'', lit ''--xml'']
       then ((0, lit ''<one>'', []), w)
       else if take 2 args = [lit ''svn'', lit ''info'']
       then ((0, lit ''http://svn/lib'', []), w)
       else ((0, [], []), w)),
     path_isdir = (\<lambda>p w. p = lit ''wc/lib''), path_exists = (\<lambda>p w. p = lit ''wc/lib''),
     rmtree = (\<lambda>p w. w), os_remove = (\<lambda>p w. w), makedirs = (\<lambda>p w. (True, w)),
     fromstring = (\<lambda>s.
       if s = lit ''<main>'' then Some (Element (lit ''log'') [] None [log_entry (lit ''5''), log_entry (lit ''7'')])
       else if s = lit ''<ext>'' then Some (Element (lit ''log'') [] None [log_entry (lit ''6'')])
       else if s = lit ''<one>'' then Some (Element (lit ''log'') [] None [log_entry (lit ''5'')])
       else None),
     utcnow_isoformat = (\<lambda>w. []), getenv = (\<lambda>k. None),
     expanduser = (\<lambda>p. p), os_name = lit ''posix''\<rparr>"

definition synced_ops :: svn_ops where
  "synced_ops = \<lparr>repo_path = lit ''wc'', before_update_rev = Some (lit ''4''), after_update_rev = Some (lit ''7'')\<rparr>"





text \<open>
  A Git host with a usable SSH key.  The world counts the stages of the destination
  \<open>repo\<close>: 0 before it is cloned, 1 once it is cloned, 2 once \<open>git submodule update\<close> has
  run in it.  The head is always \<open>abc123\<close>.  The working tree has the two submodules
  \<open>libs/a\<close> and \<open>libs/b\<close>; the update moves \<open>libs/a\<close> from \<open>1111\<close> to \<open>3333\<close>, and the log
  between the two has one commit.
\<close>

definition submodule_status_text :: "pystr \<Rightarrow> pystr" where
  "submodule_status_text a = lit '' '' @ a @ lit '' libs/a (heads/main)'' @ [0x0A] @ lit ''+2222 libs/b''"

definition git_env :: "nat env" where
  "git_env = \<lparr>subprocess_run = (\<lambda>args cwd ssh w.
       if take 2 args = [lit ''git'', lit ''clone''] then ((0, [], []), 1)
       else if args = [lit ''git'', lit ''rev-parse'', lit ''HEAD''] then ((0, lit ''abc123'' @ [0x0A], []), w)
       else if take 3 args = [lit ''git'', lit ''submodule'', lit ''status'']
       then ((0, submodule_status_text (if w = 2 then lit ''3333'' else lit ''1111''), []), w)
       else if take 3 args = [lit ''git'', lit ''submodule'', lit ''update''] then ((0, [], []), 2)
       else if take 2 args = [lit ''git'', lit ''log'']
       then ((0, lit ''h1|Ann|ann@example.org|2025-01-01|fix the build'', []), w)
       else ((0, [], []), w)),
     path_isdir = (\<lambda>p w. 0 < w \<and> p = lit ''repo''),
     path_exists = (\<lambda>p w. p = lit ''~/.ssh/id_ed25519'' \<or> (0 < w \<and> (p = lit ''repo'' \<or> p = lit ''repo/.git''))),
     rmtree = (\<lambda>p w. w), os_remove = (\<lambda>p w. w), makedirs = (\<lambda>p w. (True, w)),
     fromstring = (\<lambda>s. None), utcnow_isoformat = (\<lambda>w. []), getenv = (\<lambda>k. None),
     expanduser = (\<lambda>p. p), os_name = lit ''posix''\<rparr>"

definition moved_commit :: commit_info where
  "moved_commit = [(lit ''commit'', lit ''h1''), (lit ''author'', lit ''Ann''),
     (lit ''email'', lit ''ann@example.org''), (lit ''date'', lit ''2025-01-01''),
     (lit ''message'', lit ''fix the build'')]"

definition repo_url0 :: pystr where
  "repo_url0 = lit ''git@example.org:game.git''"

section \<open>Properties\<close>

subsection \<open>Strings\<close>

lemma contains_iff: "contains sub s \<longleftrightarrow> (\<exists>ps ss. s = ps @ sub @ ss)"
proof (induction s)
  case Nil show ?case by auto
next
  case (Cons c cs)
  show ?case
  proof
    assume "contains sub (c # cs)"
    then consider "prefix sub (c # cs)" | "contains sub cs" by auto
    then show "\<exists>ps ss. c # cs = ps @ sub @ ss"
    proof cases
      case 1 then obtain ss where "c # cs = sub @ ss" by (auto simp: prefix_def)
      then have "c # cs = [] @ sub @ ss" by simp
      then show ?thesis by blast
    next
      case 2 with Cons obtain ps ss where "cs = ps @ sub @ ss" by blast
      then have "c # cs = (c # ps) @ sub @ ss" by simp
      then show ?thesis by blast
    qed
  next
    assume "\<exists>ps ss. c # cs = ps @ sub @ ss"
    then obtain ps ss where e: "c # cs = ps @ sub @ ss" by blast
    show "contains sub (c # cs)"
    proof (cases ps)
      case Nil
      with e have "prefix sub (c # cs)" by (simp add: prefix_def)
      then show ?thesis by simp
    next
      case (Cons p ps') with e have "cs = ps' @ sub @ ss" by simp
      with Cons.IH show ?thesis by auto
    qed
  qed
qed

lemma lit_eq_iff [simp]: "lit a = lit b \<longleftrightarrow> a = b"
  by (simp add: lit_def inj_map_eq_map inj_of_char)

lemma lit_Nil_iff [simp]: "lit a = [] \<longleftrightarrow> a = []"
  by (simp add: lit_def)

subsection \<open>The command executor\<close>

text \<open>
  C8.  \<open>run_cmd\<close> starts exactly one process.  Without \<open>check\<close> it returns the exit code
  with the captured stdout and stderr whatever the exit code is; with \<open>check\<close> a nonzero
  exit raises the module's exception, whose message carries the argument vector, the
  exit code, stdout and stderr; a zero exit returns in both modes.
\<close>

theorem run_cmd_check:
  assumes "subprocess_run env args cwd None (world s) = ((code, out, err), w')"
  shows "(\<not> check \<longrightarrow> fst (run_cmd env args cwd check s) = Inr (code, out, err))
    \<and> (check \<and> code \<noteq> 0 \<longrightarrow>
         fst (run_cmd env args cwd check s) = Inl (VCSException (CmdFailed args code out err)))
    \<and> (code = 0 \<longrightarrow> fst (run_cmd env args cwd check s) = Inr (0, out, err))
    \<and> snd (run_cmd env args cwd check s) = s\<lparr>world := w', trace := trace s @ [(args, cwd)]\<rparr>"
  using assms by (simp add: run_cmd_def Let_def)

theorem run_cmd_check_witness:
  "fst (run_cmd lock_env [lit ''svn'', lit ''update''] None True \<lparr>world = False, trace = []\<rparr>)
     = Inl (VCSException (CmdFailed [lit ''svn'', lit ''update''] 1 [] (lit ''svn: E155004: locked'')))
   \<and> fst (run_cmd lock_env [lit ''svn'', lit ''update''] None False \<lparr>world = False, trace = []\<rparr>)
     = Inr (1, [], lit ''svn: E155004: locked'')
   \<and> fst (run_cmd lock_env [lit ''svn'', lit ''update''] None True \<lparr>world = True, trace = []\<rparr>)
     = Inr (0, lit ''ok'', [])"
proof -
  have a: "subprocess_run lock_env [lit ''svn'', lit ''update''] None None (world \<lparr>world = False, trace = []\<rparr>)
     = ((1, [], lit ''svn: E155004: locked''), False)"
    by (simp add: lock_env_def cleanup_cmd_def lit_def)
  have b: "subprocess_run lock_env [lit ''svn'', lit ''update''] None None (world \<lparr>world = True, trace = []\<rparr>)
     = ((0, lit ''ok'', []), True)"
    by (simp add: lock_env_def cleanup_cmd_def lit_def)
  from run_cmd_check [OF a, of True] run_cmd_check [OF a, of False] run_cmd_check [OF b, of True]
  show ?thesis by simp
qed

subsection \<open>Lock recovery\<close>



subsection \<open>The line cap of \<open>get_diff\<close>\<close>

lemma nolb_simps [simp]: "nolb []" "nolb (c # l) = (\<not> is_linebreak c \<and> nolb l)"
  "nolb (a @ b) = (nolb a \<and> nolb b)"
  by (auto simp: nolb_def)












lemma bnd_Inl: "m s = (Inl e, s') \<Longrightarrow> bnd m f s = (Inl e, s')"
  by (simp add: bnd_def)






subsection \<open>Aggregation in the example working copy\<close>

lemma svn_ok:
  assumes "subprocess_run env (lit ''svn'' # args) (Some (repo_path ops)) None (world s) = ((0, out, err), w')"
  shows "svn env ops args check s =
           (Inr (0, out, err), s\<lparr>world := w', trace := trace s @ [(lit ''svn'' # args, Some (repo_path ops))]\<rparr>)"
  using assms by (simp add: svn_def Let_def bnd_def run_cmd_def return_def)

lemma merge_run:
  "subprocess_run merge_env args cwd ssh w =
     (if args = lit ''svn'' # externals_cmd
       then (if cwd = Some (lit ''wc'') then ((0, lit ''lib - ^/lib lib'', []), w) else ((0, [], []), w))
       else if take 3 args = [lit ''svn'', lit ''log'', lit ''-v'']
       then (if cwd = Some (lit ''wc'') then ((0, lit ''<main>'', []), w) else ((0, lit ''<ext>'', []), w))
       else if take 3 args = [lit ''svn'', lit ''log'', lit ''--xml'']
       then ((0, lit ''<one>'', []), w)
       else if take 2 args = [lit ''svn'', lit ''info'']
       then ((0, lit ''http://svn/lib'', []), w)
       else ((0, [], []), w))"
  by (simp add: merge_env_def)

lemma merge_isdir: "path_isdir merge_env p w = (p = lit ''wc/lib'')"
  by (simp add: merge_env_def)

lemma merge_externals_wc:
  "get_externals merge_env (SvnOps (lit ''wc'')) s =
     (Inr [lit ''wc/lib''], s\<lparr>trace := trace s @ [(lit ''svn'' # externals_cmd, Some (lit ''wc''))]\<rparr>)"
proof -
  have r: "subprocess_run merge_env (lit ''svn'' # externals_cmd) (Some (repo_path (SvnOps (lit ''wc'')))) None (world s)
        = ((0, lit ''lib - ^/lib lib'', []), world s)"
    by (simp add: merge_run SvnOps_def)
  have l: "externals_of_lines (SvnOps (lit ''wc'')) (splitlines (lit ''lib - ^/lib lib'')) = [lit ''wc/lib'']"
    by (simp add: splitlines_def lit_def is_linebreak_def SvnOps_def os_path_join_def strip_def strip_where_def is_space_def)
  show ?thesis
    by (simp add: get_externals_def bnd_def svn_ok [OF r] return_def l; simp add: SvnOps_def)
qed

lemma merge_externals_lib:
  "get_externals merge_env (SvnOps (lit ''wc/lib'')) s =
     (Inr [], s\<lparr>trace := trace s @ [(lit ''svn'' # externals_cmd, Some (lit ''wc/lib''))]\<rparr>)"
proof -
  have r: "subprocess_run merge_env (lit ''svn'' # externals_cmd) (Some (repo_path (SvnOps (lit ''wc/lib'')))) None (world s)
        = ((0, [], []), world s)"
    by (simp add: merge_run SvnOps_def lit_def)
  show ?thesis
    by (simp add: get_externals_def bnd_def svn_ok [OF r] return_def splitlines_def; simp add: SvnOps_def)
qed

lemma merge_all_externals:
  "get_all_externals 2 merge_env synced_ops s =
     Some (Inr [lit ''wc/lib''],
       s\<lparr>trace := trace s @ [(lit ''svn'' # externals_cmd, Some (lit ''wc'')),
                              (lit ''svn'' # externals_cmd, Some (lit ''wc/lib''))]\<rparr>)"
proof -
  have "scan (Suc (Suc 0)) merge_env (lit ''wc'') ([], [], s) =
         Some (Inr (), ([lit ''wc'', lit ''wc/lib''], [lit ''wc/lib''],
           s\<lparr>trace := trace s @ [(lit ''svn'' # externals_cmd, Some (lit ''wc'')),
                              (lit ''svn'' # externals_cmd, Some (lit ''wc/lib''))]\<rparr>))"
    by (simp add: merge_externals_wc merge_externals_lib merge_isdir; simp add: lit_def)
  then show ?thesis
    by (simp add: get_all_externals_def synced_ops_def numeral_2_eq_2)
qed

lemma merge_rev_time:
  "get_rev_time merge_env synced_ops rv s =
     (Inr (lit ''2025-12-10''),
      s\<lparr>trace := trace s @ [([lit ''svn'', lit ''log'', lit ''--xml'', lit ''-r'', rv], Some (lit ''wc''))]\<rparr>)"
proof -
  have r: "subprocess_run merge_env (lit ''svn'' # [lit ''log'', lit ''--xml'', lit ''-r'', rv])
             (Some (repo_path synced_ops)) None (world s) = ((0, lit ''<one>'', []), world s)"
    by (simp add: merge_run; simp add: lit_def externals_cmd_def)
  have p: "fromstring merge_env (lit ''<one>'') = Some (Element (lit ''log'') [] None [log_entry (lit ''5'')])"
    by (simp add: merge_env_def; simp add: lit_def)
  have d: "strip (lit ''2025-12-10'') = lit ''2025-12-10''"
    by (simp add: strip_def strip_where_def lit_def is_space_def)
  show ?thesis
    by (simp add: get_rev_time_def bnd_def svn_ok [OF r] return_def p xml_find_def xml_findtext_def
         log_entry_def d;
       simp add: synced_ops_def lit_def)
qed

lemma strip_plain:
  "strip (lit ''dev'') = lit ''dev''" "strip (lit ''2025-12-10'') = lit ''2025-12-10''"
  "strip (lit ''change'') = lit ''change''" "strip (lit ''5'') = lit ''5''"
  "strip (lit ''6'') = lit ''6''" "strip (lit ''7'') = lit ''7''"
  "strip (lit ''http://svn/lib'') = lit ''http://svn/lib''"
  by (simp_all add: strip_def strip_where_def lit_def is_space_def)

lemma change_of_log_entry: "strip r = r \<Longrightarrow> change_of_entry (log_entry r) = change r"
  by (simp add: change_of_entry_def log_entry_def xml_get_def xml_findtext_def xml_find_def
        change_def strip_plain)

lemma merge_log_wc:
  "get_external_revision_list_by_time merge_env synced_ops t1 t2 s =
     (Inr [change (lit ''5''), change (lit ''7'')],
      s\<lparr>trace := trace s @ [([lit ''svn'', lit ''log'', lit ''-v'', lit ''--xml'', lit ''-r'', time_range t1 t2], Some (lit ''wc''))]\<rparr>)"
proof -
  have r: "subprocess_run merge_env (lit ''svn'' # [lit ''log'', lit ''-v'', lit ''--xml'', lit ''-r'', time_range t1 t2])
             (Some (repo_path synced_ops)) None (world s) = ((0, lit ''<main>'', []), world s)"
    by (simp add: merge_run synced_ops_def; simp add: lit_def externals_cmd_def)
  have p: "fromstring merge_env (lit ''<main>'') = Some (Element (lit ''log'') [] None [log_entry (lit ''5''), log_entry (lit ''7'')])"
    by (simp add: merge_env_def)
  have n: "lit ''<main>'' \<noteq> []" by (simp add: lit_def)
  have t: "tag (log_entry r) = lit ''logentry''" for r by (simp add: log_entry_def)
  show ?thesis
    by (simp add: get_external_revision_list_by_time_def bnd_def svn_ok [OF r] return_def p n
         xml_findall_def t change_of_log_entry strip_plain;
       simp add: synced_ops_def)
qed

lemma merge_log_lib:
  "get_external_revision_list_by_time merge_env (SvnOps (lit ''wc/lib'')) t1 t2 s =
     (Inr [change (lit ''6'')],
      s\<lparr>trace := trace s @ [([lit ''svn'', lit ''log'', lit ''-v'', lit ''--xml'', lit ''-r'', time_range t1 t2], Some (lit ''wc/lib''))]\<rparr>)"
proof -
  have r: "subprocess_run merge_env (lit ''svn'' # [lit ''log'', lit ''-v'', lit ''--xml'', lit ''-r'', time_range t1 t2])
             (Some (repo_path (SvnOps (lit ''wc/lib'')))) None (world s) = ((0, lit ''<ext>'', []), world s)"
    by (simp add: merge_run SvnOps_def; simp add: lit_def externals_cmd_def)
  have p: "fromstring merge_env (lit ''<ext>'') = Some (Element (lit ''log'') [] None [log_entry (lit ''6'')])"
    by (simp add: merge_env_def; simp add: lit_def)
  have n: "lit ''<ext>'' \<noteq> []" by (simp add: lit_def)
  have t: "tag (log_entry r) = lit ''logentry''" for r by (simp add: log_entry_def)
  show ?thesis
    by (simp add: get_external_revision_list_by_time_def bnd_def svn_ok [OF r] return_def p n
         xml_findall_def t change_of_log_entry strip_plain;
       simp add: SvnOps_def)
qed

lemma merge_url_lib:
  "get_current_url merge_env (SvnOps (lit ''wc/lib'')) s =
     (Inr (lit ''http://svn/lib''),
      s\<lparr>trace := trace s @ [([lit ''svn'', lit ''info'', lit ''--show-item'', lit ''url''], Some (lit ''wc/lib''))]\<rparr>)"
proof -
  have r: "subprocess_run merge_env (lit ''svn'' # [lit ''info'', lit ''--show-item'', lit ''url''])
             (Some (repo_path (SvnOps (lit ''wc/lib'')))) None (world s) = ((0, lit ''http://svn/lib'', []), world s)"
    by (simp add: merge_run SvnOps_def; simp add: lit_def externals_cmd_def)
  show ?thesis
    by (simp add: get_current_url_def bnd_def svn_ok [OF r] return_def strip_plain;
       simp add: SvnOps_def)
qed

lemma merge_summary:
  "\<exists>s'. collect_change_summary 2 merge_env synced_ops (Some t1) (Some t2) False 200 True s =
     Some (Inr \<lparr>main = [change (lit ''5''), change (lit ''7'')],
                ext = [(lit ''http://svn/lib'', [change (lit ''6'')])]\<rparr>, s')"
  by (simp add: collect_change_summary_def pbnd_def lift_def return_def merge_log_wc
       merge_all_externals bnd_def merge_url_lib merge_log_lib Let_def)

lemma key_567:
  "revision_key (change (lit ''5'')) = 5" "revision_key (change (lit ''6'')) = 6"
  "revision_key (change (lit ''7'')) = 7"
  by (simp_all add: revision_key_def change_def py_int_def strip_plain Let_def)
     (simp_all add: lit_def is_digit_def)

lemma merge_567:
  "merge_changes \<lparr>main = [change (lit ''5''), change (lit ''7'')],
                  ext = [(lit ''http://svn/lib'', [change (lit ''6'')])]\<rparr>
     = [change (lit ''5''), change (lit ''6''), change (lit ''7'')]"
  by (simp add: merge_changes_def key_567)

lemma merge_result:
  "\<exists>s'. collect_update_result 2 merge_env synced_ops False 200 True s =
     Some (Inr \<lparr>from_rev = lit ''4'', to_rev = lit ''7'',
                revision_changes = [change (lit ''5''), change (lit ''6''), change (lit ''7'')]\<rparr>, s')"
proof -
  have b: "before_update_rev synced_ops = Some (lit ''4'')" and a: "after_update_rev synced_ops = Some (lit ''7'')"
    by (simp_all add: synced_ops_def)
  have t: "truthy (Some (lit ''4''))" "truthy (Some (lit ''7''))"
    by (simp_all add: truthy_def lit_def)
  obtain s1 where s1: "get_rev_time merge_env synced_ops (lit ''4'') s = (Inr (lit ''2025-12-10''), s1)"
    by (simp add: merge_rev_time)
  obtain s2 where s2: "get_rev_time merge_env synced_ops (lit ''7'') s1 = (Inr (lit ''2025-12-10''), s2)"
    by (simp add: merge_rev_time)
  from merge_summary [of "lit ''2025-12-10''" "lit ''2025-12-10''" s2]
  obtain s3 where s3: "collect_change_summary 2 merge_env synced_ops (Some (lit ''2025-12-10'')) (Some (lit ''2025-12-10'')) False 200 True s2 =
     Some (Inr \<lparr>main = [change (lit ''5''), change (lit ''7'')],
                ext = [(lit ''http://svn/lib'', [change (lit ''6'')])]\<rparr>, s3)" by blast
  have "collect_update_result 2 merge_env synced_ops False 200 True s =
     Some (Inr \<lparr>from_rev = lit ''4'', to_rev = lit ''7'',
                revision_changes = [change (lit ''5''), change (lit ''6''), change (lit ''7'')]\<rparr>, s3)"
    unfolding collect_update_result_def b a
    by (simp only: t pbnd_def lift_def return_def s1 s2 s3 merge_567 option.sel
          option.case sum.case prod.case simp_thms if_False)
  then show ?thesis by blast
qed

subsection \<open>The change aggregator\<close>

lemma truthy_iff: "truthy x \<longleftrightarrow> (\<exists>v. x = Some v \<and> v \<noteq> [])"
  by (cases x) (simp_all add: truthy_def)

lemma collect_update_result_unset:
  "\<not> truthy (before_update_rev ops) \<or> \<not> truthy (after_update_rev ops) \<Longrightarrow>
   collect_update_result n env ops d m e s = Some (Inl (VCSException UpdateToNotRun), s)"
  by (auto simp: collect_update_result_def lift_def raise_def)

lemma collect_update_result_Inr:
  assumes "collect_update_result n env ops d m e s = Some (Inr r, s')"
  shows "truthy (before_update_rev ops) \<and> truthy (after_update_rev ops)
    \<and> from_rev r = the (before_update_rev ops) \<and> to_rev r = the (after_update_rev ops)
    \<and> (\<exists>t1 t2 s0 summary.
          collect_change_summary n env ops (Some t1) (Some t2) d m e s0 = Some (Inr summary, s')
          \<and> revision_changes r = merge_changes summary)"
proof -
  have t: "truthy (before_update_rev ops) \<and> truthy (after_update_rev ops)"
    using assms collect_update_result_unset [of ops n env d m e s] by auto
  with assms show ?thesis
    unfolding collect_update_result_def
    by (auto simp add: pbnd_def lift_def return_def split: option.splits prod.splits sum.splits)
       blast
qed

text \<open>
  C3.  When \<open>before_update_rev\<close> or \<open>after_update_rev\<close> is unset (or empty),
  \<open>collect_update_result\<close> raises the module's exception with the message that
  \<open>update_to()\<close> was not executed, before it runs any command; this is the case of a
  freshly constructed object, on which \<open>update_to\<close> has never been called.  Whenever it
  returns a result, both identifiers were set and are the result's \<open>from_rev\<close> and \<open>to_rev\<close>.
\<close>

theorem collect_update_result_precondition:
  "(\<not> truthy (before_update_rev ops) \<or> \<not> truthy (after_update_rev ops) \<longrightarrow>
       collect_update_result n env ops d m e s = Some (Inl (VCSException UpdateToNotRun), s))
   \<and> collect_update_result n env (SvnOps p) d m e s = Some (Inl (VCSException UpdateToNotRun), s)
   \<and> (collect_update_result n env ops d m e s = Some (Inr r, s') \<longrightarrow>
        (\<exists>b a. before_update_rev ops = Some b \<and> b \<noteq> [] \<and> after_update_rev ops = Some a \<and> a \<noteq> []
           \<and> from_rev r = b \<and> to_rev r = a))"
proof (intro conjI impI)
  assume "\<not> truthy (before_update_rev ops) \<or> \<not> truthy (after_update_rev ops)"
  then show "collect_update_result n env ops d m e s = Some (Inl (VCSException UpdateToNotRun), s)"
    by (rule collect_update_result_unset)
next
  have "\<not> truthy (before_update_rev (SvnOps p))" by (simp add: SvnOps_def truthy_def)
  then show "collect_update_result n env (SvnOps p) d m e s = Some (Inl (VCSException UpdateToNotRun), s)"
    by (simp add: collect_update_result_unset)
next
  assume "collect_update_result n env ops d m e s = Some (Inr r, s')"
  from collect_update_result_Inr [OF this]
  show "\<exists>b a. before_update_rev ops = Some b \<and> b \<noteq> [] \<and> after_update_rev ops = Some a \<and> a \<noteq> []
           \<and> from_rev r = b \<and> to_rev r = a"
    by (auto simp: truthy_iff)
qed

theorem collect_update_result_precondition_witness:
  "collect_update_result 2 merge_env (SvnOps (lit ''wc'')) False 200 True \<lparr>world = (), trace = []\<rparr>
     = Some (Inl (VCSException UpdateToNotRun), \<lparr>world = (), trace = []\<rparr>)
   \<and> \<not> truthy (after_update_rev (synced_ops\<lparr>after_update_rev := None\<rparr>))
   \<and> collect_update_result 2 merge_env (synced_ops\<lparr>after_update_rev := None\<rparr>) False 200 True
         \<lparr>world = (), trace = []\<rparr>
     = Some (Inl (VCSException UpdateToNotRun), \<lparr>world = (), trace = []\<rparr>)
   \<and> (\<exists>r s'. collect_update_result 2 merge_env synced_ops False 200 True \<lparr>world = (), trace = []\<rparr>
                 = Some (Inr r, s')
          \<and> before_update_rev synced_ops = Some (from_rev r)
          \<and> after_update_rev synced_ops = Some (to_rev r)
          \<and> from_rev r = lit ''4'' \<and> to_rev r = lit ''7'')"
proof -
  let ?s = "\<lparr>world = (), trace = []\<rparr> :: unit st"
  have u: "\<not> truthy (after_update_rev (synced_ops\<lparr>after_update_rev := None\<rparr>))"
    by (simp add: truthy_def)
  obtain s' where r: "collect_update_result 2 merge_env synced_ops False 200 True ?s =
     Some (Inr \<lparr>from_rev = lit ''4'', to_rev = lit ''7'',
                revision_changes = [change (lit ''5''), change (lit ''6''), change (lit ''7'')]\<rparr>, s')"
    using merge_result [of ?s] by blast
  note t = collect_update_result_precondition
  from t [of "synced_ops\<lparr>after_update_rev := None\<rparr>" 2 merge_env False 200 True ?s] u
  have 1: "collect_update_result 2 merge_env (synced_ops\<lparr>after_update_rev := None\<rparr>) False 200 True ?s
     = Some (Inl (VCSException UpdateToNotRun), ?s)" by blast
  from t [of _ 2 merge_env False 200 True ?s "lit ''wc''"]
  have 2: "collect_update_result 2 merge_env (SvnOps (lit ''wc'')) False 200 True ?s
     = Some (Inl (VCSException UpdateToNotRun), ?s)" by blast
  from t [of synced_ops 2 merge_env False 200 True ?s _ _ s'] r
  have 3: "before_update_rev synced_ops = Some (lit ''4'') \<and> after_update_rev synced_ops = Some (lit ''7'')"
    by auto
  from 1 2 3 u r show ?thesis by auto
qed






subsection \<open>The sparse profile applier\<close>


lemma expansions_append [simp]: "expansions (a @ b) = expansions a @ expansions b"
  by (simp add: expansions_def map_filter_def)

lemma expansions_Nil [simp]: "expansions [] = []"
  by (simp add: expansions_def map_filter_def)


lemma update_target_cleanup [simp]: "update_target cleanup_cmd = None"
  by (simp add: update_target_def cleanup_cmd_def)

lemma update_target_expand [simp]:
  "update_target (lit ''svn'' # expand_cmd item) = Some (strip_slash (the (rule_path item)))"
  by (simp add: update_target_def expand_cmd_def)

lemma update_target_checkout [simp]:
  "update_target (lit ''svn'' # [lit ''checkout'', a, b, c, d]) = None"
  by (simp add: update_target_def)





lemma count_slash_append [simp]: "count_slash (a @ b) = count_slash a + count_slash b"
  by (simp add: count_slash_def)










subsection \<open>The Git sync engine\<close>

lemma changed_submodules_none:
  "changed_submodules env dest [] subs_after s = (Inr [], s)"
  by (induction subs_after arbitrary: s) (auto simp: return_def truthy_def Let_def)

lemma changed_submodules_only:
  assumes "changed_submodules env dest subs_before subs_after s = (Inr subs, s')"
  shows "\<forall>e \<in> set subs. range_from e = map_of subs_before (range_path e)
           \<and> truthy (range_from e) \<and> the (range_from e) \<noteq> range_to e
           \<and> (range_path e, range_to e) \<in> set subs_after"
  using assms
proof (induction subs_after arbitrary: s subs)
  case Nil
  then show ?case by (simp add: return_def)
next
  case (Cons pc rest)
  obtain sub_path new_commit where pc: "pc = (sub_path, new_commit)" by (cases pc)
  let ?old = "map_of subs_before sub_path"
  show ?case
  proof (cases "truthy ?old \<and> the ?old \<noteq> new_commit")
    case False
    with Cons.prems pc have "changed_submodules env dest subs_before rest s = (Inr subs, s')"
      by (auto simp: Let_def)
    from Cons.IH [OF this] show ?thesis by auto
  next
    case True
    obtain r1 s1 where 1: "get_commits_between env (os_path_join dest sub_path) (the ?old) new_commit s = (r1, s1)"
      by (cases "get_commits_between env (os_path_join dest sub_path) (the ?old) new_commit s")
    obtain r2 s2 where 2: "changed_submodules env dest subs_before rest s1 = (r2, s2)"
      by (cases "changed_submodules env dest subs_before rest s1")
    from Cons.prems pc True 1 2 obtain cs more where
      r1: "r1 = Inr cs" and r2: "r2 = Inr more" and s2: "s2 = s'"
      and subs: "subs = \<lparr>range_path = sub_path, range_from = ?old, range_to = new_commit,
                     range_commits = cs\<rparr> # more"
      by (cases r1; cases r2) (auto simp: Let_def bnd_def return_def)
    from Cons.IH [of s1 more] 2 r2 s2 have
      "\<forall>e \<in> set more. range_from e = map_of subs_before (range_path e)
           \<and> truthy (range_from e) \<and> the (range_from e) \<noteq> range_to e
           \<and> (range_path e, range_to e) \<in> set rest" by blast
    with subs True pc show ?thesis by auto
  qed
qed

lemma git_env_run:
  "subprocess_run git_env args cwd ssh w =
     (if take 2 args = [lit ''git'', lit ''clone''] then ((0, [], []), 1)
       else if args = [lit ''git'', lit ''rev-parse'', lit ''HEAD''] then ((0, lit ''abc123'' @ [0x0A], []), w)
       else if take 3 args = [lit ''git'', lit ''submodule'', lit ''status'']
       then ((0, submodule_status_text (if w = 2 then lit ''3333'' else lit ''1111''), []), w)
       else if take 3 args = [lit ''git'', lit ''submodule'', lit ''update''] then ((0, [], []), 2)
       else if take 2 args = [lit ''git'', lit ''log'']
       then ((0, lit ''h1|Ann|ann@example.org|2025-01-01|fix the build'', []), w)
       else ((0, [], []), w))"
  by (simp add: git_env_def)

lemma git_env_exists:
  "path_exists git_env p w = (p = lit ''~/.ssh/id_ed25519'' \<or> (0 < w \<and> (p = lit ''repo'' \<or> p = lit ''repo/.git'')))"
  by (simp add: git_env_def)

lemma git_env_ssh: "\<exists>c. build_ssh_env git_env None w = Inr c"
  by (simp add: build_ssh_env_def get_default_ssh_key_def truthy_def git_env_exists Let_def)
     (simp add: git_env_def)

lemma git_run_git:
  assumes "\<And>ssh. subprocess_run git_env (lit ''git'' # args) cwd ssh (world s) = ((0, out, err), w')"
  shows "run_git git_env args cwd None s =
           (Inr (strip out), s\<lparr>world := w', trace := trace s @ [(lit ''git'' # args, cwd)]\<rparr>)"
proof -
  obtain c where "build_ssh_env git_env None (world s) = Inr c" using git_env_ssh by blast
  then show ?thesis using assms [of "Some c"] by (simp add: run_git_def Let_def)
qed

lemma strip_Nil [simp]: "strip [] = []"
  by (simp add: strip_def strip_where_def)

lemma git_plain:
  assumes "take 1 args \<noteq> [lit ''clone'']" and "args \<noteq> [lit ''rev-parse'', lit ''HEAD'']"
    and "take 2 args \<noteq> [lit ''submodule'', lit ''status'']"
    and "take 2 args \<noteq> [lit ''submodule'', lit ''update'']" and "take 1 args \<noteq> [lit ''log'']"
  shows "run_git git_env args cwd None s =
           (Inr [], s\<lparr>trace := trace s @ [(lit ''git'' # args, cwd)]\<rparr>)"
proof -
  have "subprocess_run git_env (lit ''git'' # args) cwd ssh (world s) = ((0, [], []), world s)" for ssh
    using assms by (cases args) (auto simp: git_env_run)
  from git_run_git [OF this] show ?thesis by simp
qed

lemma git_ensure_repo: "0 < world s \<Longrightarrow> ensure_repo git_env (lit ''repo'') s = (Inr (), s)"
  by (simp add: ensure_repo_def git_env_exists os_path_join_def lit_def)

lemma git_in_repo:
  assumes "0 < world s" and "take 1 args \<noteq> [lit ''clone'']" and "args \<noteq> [lit ''rev-parse'', lit ''HEAD'']"
    and "take 2 args \<noteq> [lit ''submodule'', lit ''status'']"
    and "take 2 args \<noteq> [lit ''submodule'', lit ''update'']" and "take 1 args \<noteq> [lit ''log'']"
  shows "in_repo git_env (lit ''repo'') args None s =
           (Inr (), s\<lparr>trace := trace s @ [(lit ''git'' # args, Some (lit ''repo''))]\<rparr>)"
  using assms by (simp add: in_repo_def bnd_def git_ensure_repo git_plain return_def)

lemma git_submodule_update:
  assumes "0 < world s"
  shows "submodule_update git_env (lit ''repo'') None s =
           (Inr (), s\<lparr>world := 2, trace := trace s @
              [([lit ''git'', lit ''submodule'', lit ''update'', lit ''--init'', lit ''--recursive''], Some (lit ''repo''))]\<rparr>)"
proof -
  have "subprocess_run git_env (lit ''git'' # [lit ''submodule'', lit ''update'', lit ''--init'', lit ''--recursive'']) (Some (lit ''repo'')) ssh (world s)
          = ((0, [], []), 2)" for ssh
    by (simp add: git_env_run)
  from git_run_git [OF this] show ?thesis using assms
    by (simp add: submodule_update_def in_repo_def bnd_def git_ensure_repo return_def)
qed

lemma git_head:
  assumes "0 < world s"
  shows "get_head git_env (lit ''repo'') s =
           (Inr (lit ''abc123''), s\<lparr>trace := trace s @ [([lit ''git'', lit ''rev-parse'', lit ''HEAD''], Some (lit ''repo''))]\<rparr>)"
proof -
  have "subprocess_run git_env (lit ''git'' # [lit ''rev-parse'', lit ''HEAD'']) (Some (lit ''repo'')) ssh (world s)
          = ((0, lit ''abc123'' @ [0x0A], []), world s)" for ssh
    by (simp add: git_env_run)
  from git_run_git [OF this] have "run_git git_env [lit ''rev-parse'', lit ''HEAD''] (Some (lit ''repo'')) None s =
      (Inr (strip (lit ''abc123'' @ [0x0A])), s\<lparr>trace := trace s @ [([lit ''git'', lit ''rev-parse'', lit ''HEAD''], Some (lit ''repo''))]\<rparr>)"
    by simp
  moreover have "strip (lit ''abc123'' @ [0x0A]) = lit ''abc123''"
    by (simp add: strip_def strip_where_def lit_def is_space_def)
  ultimately show ?thesis using assms by (simp add: get_head_def bnd_def git_ensure_repo)
qed

lemma git_states_text:
  "a = lit ''1111'' \<or> a = lit ''3333'' \<Longrightarrow>
   states_of_lines (splitlines (strip (submodule_status_text a))) [] =
     [(lit ''libs/a'', a), (lit ''libs/b'', lit ''2222'')]"
  by (auto simp add: submodule_status_text_def splitlines_def strip_def strip_where_def lit_def
        is_space_def is_linebreak_def split_ws_def AList.update.simps)

lemma git_states:
  assumes "0 < world s"
  shows "get_submodule_states git_env (lit ''repo'') s =
           (Inr [(lit ''libs/a'', if world s = 2 then lit ''3333'' else lit ''1111''), (lit ''libs/b'', lit ''2222'')],
            s\<lparr>trace := trace s @ [([lit ''git'', lit ''submodule'', lit ''status'', lit ''--recursive''], Some (lit ''repo''))]\<rparr>)"
proof -
  have "subprocess_run git_env (lit ''git'' # [lit ''submodule'', lit ''status'', lit ''--recursive'']) (Some (lit ''repo'')) ssh (world s)
          = ((0, submodule_status_text (if world s = 2 then lit ''3333'' else lit ''1111''), []), world s)" for ssh
    by (simp add: git_env_run)
  from git_run_git [OF this] show ?thesis using assms
    by (simp add: get_submodule_states_def bnd_def git_ensure_repo return_def git_states_text)
qed

lemma git_clone:
  "clone git_env url (lit ''repo'') None True False None s =
     (Inr (), s\<lparr>world := 1, trace := trace s @ [([lit ''git'', lit ''clone'', url, lit ''repo'', lit ''--recursive''], None)]\<rparr>)"
proof -
  have "subprocess_run git_env (lit ''git'' # [lit ''clone'', url, lit ''repo'', lit ''--recursive'']) None ssh (world s)
          = ((0, [], []), 1)" for ssh
    by (simp add: git_env_run)
  from git_run_git [OF this] show ?thesis
    by (simp add: clone_def truthy_def bnd_def return_def)
qed

lemma git_update_existing:
  assumes "0 < world s"
  shows "update_existing git_env (lit ''repo'') None True False None reset clean s =
     (Inr (), s\<lparr>world := 2, trace := trace s
        @ (if reset then [(lit ''git'' # reset_hard_cmd, Some (lit ''repo'')),
                          (lit ''git'' # submodule_reset_cmd, Some (lit ''repo''))] else [])
        @ (if clean then [(lit ''git'' # clean_untracked_cmd, Some (lit ''repo'')),
                          (lit ''git'' # submodule_clean_cmd, Some (lit ''repo''))] else [])
        @ [([lit ''git'', lit ''fetch'', lit ''--all''], Some (lit ''repo'')),
           ([lit ''git'', lit ''pull''], Some (lit ''repo'')),
           ([lit ''git'', lit ''submodule'', lit ''sync'', lit ''--recursive''], Some (lit ''repo'')),
           ([lit ''git'', lit ''submodule'', lit ''update'', lit ''--init'', lit ''--recursive''], Some (lit ''repo''))]\<rparr>)"
  using assms
  by (simp add: update_existing_def bnd_def return_def truthy_def reset_hard_def clean_untracked_def
        fetch_def pull_def submodule_sync_def git_submodule_update git_in_repo git_plain
        reset_hard_cmd_def clean_untracked_cmd_def submodule_reset_cmd_def submodule_clean_cmd_def)

lemma git_log_lines:
  "commits_of_lines (splitlines (strip (lit ''h1|Ann|ann@example.org|2025-01-01|fix the build''))) = Inr [moved_commit]"
proof -
  have four: "(4::nat) = Suc (Suc (Suc (Suc 0)))" by simp
  have s: "strip (lit ''h1|Ann|ann@example.org|2025-01-01|fix the build'')
             = lit ''h1|Ann|ann@example.org|2025-01-01|fix the build''"
    by (simp add: strip_def strip_where_def lit_def is_space_def)
  have l: "splitlines (lit ''h1|Ann|ann@example.org|2025-01-01|fix the build'')
             = [lit ''h1|Ann|ann@example.org|2025-01-01|fix the build'']"
    by (simp add: splitlines_def lit_def is_linebreak_def)
  have m: "split_max 0x7C (Suc (Suc (Suc (Suc 0)))) [] (lit ''h1|Ann|ann@example.org|2025-01-01|fix the build'')
             = [lit ''h1'', lit ''Ann'', lit ''ann@example.org'', lit ''2025-01-01'', lit ''fix the build'']"
    by (simp add: lit_def)
  show ?thesis unfolding s l by (simp only: commits_of_lines.simps four m list.case sum.case moved_commit_def)
qed

lemma git_commits_between:
  "get_commits_between git_env (lit ''repo/libs/a'') (lit ''1111'') (lit ''3333'') s =
     (Inr [moved_commit], s\<lparr>trace := trace s @
        [([lit ''git'', lit ''log'', lit ''1111..3333'', lit ''--pretty=format:%H|%an|%ae|%ad|%s'', lit ''--date=iso''],
          Some (lit ''repo/libs/a''))]\<rparr>)"
proof -
  have a: "lit ''1111'' @ lit ''..'' @ lit ''3333'' = lit ''1111..3333''" by (simp add: lit_def)
  have "subprocess_run git_env (lit ''git'' # [lit ''log'', lit ''1111..3333'', lit ''--pretty=format:%H|%an|%ae|%ad|%s'', lit ''--date=iso'']) (Some (lit ''repo/libs/a'')) ssh (world s)
          = ((0, lit ''h1|Ann|ann@example.org|2025-01-01|fix the build'', []), world s)" for ssh
    by (simp add: git_env_run)
  from git_run_git [OF this] show ?thesis
    by (simp add: get_commits_between_def a bnd_def git_log_lines return_def)
qed

lemma git_changed_moved:
  "changed_submodules git_env (lit ''repo'')
      [(lit ''libs/a'', lit ''1111''), (lit ''libs/b'', lit ''2222'')]
      [(lit ''libs/a'', lit ''3333''), (lit ''libs/b'', lit ''2222'')] s =
     (Inr [\<lparr>range_path = lit ''libs/a'', range_from = Some (lit ''1111''), range_to = lit ''3333'',
             range_commits = [moved_commit]\<rparr>],
      s\<lparr>trace := trace s @
        [([lit ''git'', lit ''log'', lit ''1111..3333'', lit ''--pretty=format:%H|%an|%ae|%ad|%s'', lit ''--date=iso''],
          Some (lit ''repo/libs/a''))]\<rparr>)"
proof -
  have j: "os_path_join (lit ''repo'') (lit ''libs/a'') = lit ''repo/libs/a''"
    by (simp add: os_path_join_def lit_def)
  show ?thesis by (simp add: return_def Let_def truthy_def j bnd_def git_commits_between)
qed

lemma get_commits_between_same: "get_commits_between env p a a s = (Inr [], s)"
  by (simp add: get_commits_between_def return_def)

lemma git_update_repo_existing:
  "update_repo git_env url (lit ''repo'') None True False None reset_arg clean_arg \<lparr>world = 1, trace = []\<rparr> =
     (Inr \<lparr>repo = \<lparr>range_path = lit ''repo'', range_from = Some (lit ''abc123''), range_to = lit ''abc123'',
                     range_commits = []\<rparr>,
            submodules = [\<lparr>range_path = lit ''libs/a'', range_from = Some (lit ''1111''),
                            range_to = lit ''3333'', range_commits = [moved_commit]\<rparr>]\<rparr>,
      \<lparr>world = 2, trace =
         [([lit ''git'', lit ''rev-parse'', lit ''HEAD''], Some (lit ''repo'')),
          ([lit ''git'', lit ''submodule'', lit ''status'', lit ''--recursive''], Some (lit ''repo''))]
        @ (if (case reset_arg of None \<Rightarrow> reset_default | Some b \<Rightarrow> b)
           then [(lit ''git'' # reset_hard_cmd, Some (lit ''repo'')),
                 (lit ''git'' # submodule_reset_cmd, Some (lit ''repo''))] else [])
        @ (if (case clean_arg of None \<Rightarrow> clean_default | Some b \<Rightarrow> b)
           then [(lit ''git'' # clean_untracked_cmd, Some (lit ''repo'')),
                 (lit ''git'' # submodule_clean_cmd, Some (lit ''repo''))] else [])
        @ [([lit ''git'', lit ''fetch'', lit ''--all''], Some (lit ''repo'')),
           ([lit ''git'', lit ''pull''], Some (lit ''repo'')),
           ([lit ''git'', lit ''submodule'', lit ''sync'', lit ''--recursive''], Some (lit ''repo'')),
           ([lit ''git'', lit ''submodule'', lit ''update'', lit ''--init'', lit ''--recursive''], Some (lit ''repo'')),
           ([lit ''git'', lit ''rev-parse'', lit ''HEAD''], Some (lit ''repo'')),
           ([lit ''git'', lit ''submodule'', lit ''status'', lit ''--recursive''], Some (lit ''repo'')),
           ([lit ''git'', lit ''log'', lit ''1111..3333'', lit ''--pretty=format:%H|%an|%ae|%ad|%s'', lit ''--date=iso''],
            Some (lit ''repo/libs/a''))]\<rparr>)"
  by (simp add: update_repo_def Let_def bnd_def return_def git_env_exists git_head git_states
        truthy_def git_update_existing get_commits_between_same git_changed_moved
        del: changed_submodules.simps)

lemma git_update_repo_fresh:
  "update_repo git_env url (lit ''repo'') None True False None reset_arg clean_arg \<lparr>world = 0, trace = []\<rparr> =
     (Inr \<lparr>repo = \<lparr>range_path = lit ''repo'', range_from = None, range_to = lit ''abc123'',
                     range_commits = []\<rparr>, submodules = []\<rparr>,
      \<lparr>world = 1, trace =
         [([lit ''git'', lit ''clone'', url, lit ''repo'', lit ''--recursive''], None),
          ([lit ''git'', lit ''rev-parse'', lit ''HEAD''], Some (lit ''repo'')),
          ([lit ''git'', lit ''submodule'', lit ''status'', lit ''--recursive''], Some (lit ''repo''))]\<rparr>)"
  by (simp add: update_repo_def Let_def bnd_def return_def git_env_exists git_head git_states
        truthy_def git_clone changed_submodules_none)

text \<open>
  C10.  Whenever \<open>update_repo\<close> returns: if the destination did not exist when it was
  called, the result has \<open>from\<close> unset, no commits and no submodule entries, whatever
  submodules the clone has; and every submodule entry of a result belongs to a
  submodule that was in the snapshot taken before the update, with a non-empty commit
  there, which is the entry's \<open>from\<close> and differs from its \<open>to\<close>.
\<close>

theorem update_repo_fresh_clone:
  assumes "update_repo env url dest branch recursive lfs ssh_key reset_arg clean_arg s = (Inr info, s')"
  shows "(\<not> path_exists env dest (world s) \<longrightarrow>
            range_from (repo info) = None \<and> range_commits (repo info) = [] \<and> submodules info = [])
       \<and> (\<forall>e \<in> set (submodules info).
            path_exists env dest (world s)
          \<and> (\<exists>subs_before s2. get_submodule_states env dest (snd (get_head env dest s)) = (Inr subs_before, s2)
                \<and> map_of subs_before (range_path e) = range_from e)
          \<and> truthy (range_from e) \<and> the (range_from e) \<noteq> range_to e)"
proof (cases "path_exists env dest (world s)")
  case False
  from assms False have "range_from (repo info) = None \<and> range_commits (repo info) = [] \<and> submodules info = []"
    unfolding update_repo_def Let_def
    by (auto simp: bnd_def return_def truthy_def changed_submodules_none
          split: sum.splits prod.splits if_splits)
  then show ?thesis using False by simp
next
  case True
  obtain r1 s1 where 1: "get_head env dest s = (r1, s1)" by (cases "get_head env dest s")
  show ?thesis
  proof (cases r1)
    case (Inl x)
    with assms True 1 show ?thesis unfolding update_repo_def Let_def by (simp add: bnd_def)
  next
    case (Inr h)
    show ?thesis
    proof (cases "truthy (Some h)")
      case False
      with assms True 1 Inr have "submodules info = []"
        unfolding update_repo_def Let_def
        by (auto simp: bnd_def return_def changed_submodules_none
              split: sum.splits prod.splits if_splits)
      with True show ?thesis by simp
    next
      case th: True
      obtain r2 s2 where 2: "get_submodule_states env dest s1 = (r2, s2)"
        by (cases "get_submodule_states env dest s1")
      show ?thesis
      proof (cases r2)
        case (Inl x)
        with assms True 1 Inr th 2 show ?thesis
          unfolding update_repo_def Let_def by (simp add: bnd_def return_def)
      next
        case sb: (Inr subs_before)
        from assms True 1 Inr th 2 sb obtain subs_after sa sb' where
          "changed_submodules env dest subs_before subs_after sa = (Inr (submodules info), sb')"
          unfolding update_repo_def Let_def
          by (auto simp: bnd_def return_def split: sum.splits prod.splits if_splits)
        from changed_submodules_only [OF this] True 1 2 sb show ?thesis by auto
      qed
    qed
  qed
qed

theorem update_repo_fresh_clone_witness:
  "\<not> path_exists git_env (lit ''repo'') (world \<lparr>world = 0, trace = []\<rparr>)
   \<and> (\<exists>info s'. update_repo git_env repo_url0 (lit ''repo'') None True False None None None
                     \<lparr>world = 0, trace = []\<rparr> = (Inr info, s')
          \<and> range_from (repo info) = None \<and> range_commits (repo info) = [] \<and> submodules info = []
          \<and> fst (get_submodule_states git_env (lit ''repo'') s')
               = Inr [(lit ''libs/a'', lit ''1111''), (lit ''libs/b'', lit ''2222'')])
   \<and> (\<exists>info s'. update_repo git_env repo_url0 (lit ''repo'') None True False None None None
                     \<lparr>world = 1, trace = []\<rparr> = (Inr info, s')
          \<and> submodules info = [\<lparr>range_path = lit ''libs/a'', range_from = Some (lit ''1111''),
                                   range_to = lit ''3333'', range_commits = [moved_commit]\<rparr>]
          \<and> fst (get_submodule_states git_env (lit ''repo'')
                    (snd (get_head git_env (lit ''repo'') \<lparr>world = 1, trace = []\<rparr>)))
               = Inr [(lit ''libs/a'', lit ''1111''), (lit ''libs/b'', lit ''2222'')])"
proof -
  let ?fresh = "\<lparr>world = 0, trace = []\<rparr> :: nat st"
  have f: "\<not> path_exists git_env (lit ''repo'') (world ?fresh)"
    by (simp add: git_env_exists)
  note r = git_update_repo_fresh [of repo_url0 None None]
  from update_repo_fresh_clone [OF r] f
  have 1: "range_from (repo \<lparr>repo = \<lparr>range_path = lit ''repo'', range_from = None, range_to = lit ''abc123'',
                     range_commits = []\<rparr>, submodules = []\<rparr>) = None" by blast
  have 2: "fst (get_submodule_states git_env (lit ''repo'') \<lparr>world = 1, trace = tr\<rparr>)
             = Inr [(lit ''libs/a'', lit ''1111''), (lit ''libs/b'', lit ''2222'')]" for tr
    by (simp add: git_states)
  have 3: "snd (get_head git_env (lit ''repo'') \<lparr>world = 1, trace = []\<rparr>)
             = \<lparr>world = 1, trace = [([lit ''git'', lit ''rev-parse'', lit ''HEAD''], Some (lit ''repo''))]\<rparr>"
    by (simp add: git_head)
  have a: "\<exists>info s'. update_repo git_env repo_url0 (lit ''repo'') None True False None None None ?fresh
                     = (Inr info, s')
          \<and> range_from (repo info) = None \<and> range_commits (repo info) = [] \<and> submodules info = []
          \<and> fst (get_submodule_states git_env (lit ''repo'') s')
               = Inr [(lit ''libs/a'', lit ''1111''), (lit ''libs/b'', lit ''2222'')]"
    unfolding r using 1 2 by simp
  have b: "\<exists>info s'. update_repo git_env repo_url0 (lit ''repo'') None True False None None None
                     \<lparr>world = 1, trace = []\<rparr> = (Inr info, s')
          \<and> submodules info = [\<lparr>range_path = lit ''libs/a'', range_from = Some (lit ''1111''),
                                   range_to = lit ''3333'', range_commits = [moved_commit]\<rparr>]
          \<and> fst (get_submodule_states git_env (lit ''repo'')
                    (snd (get_head git_env (lit ''repo'') \<lparr>world = 1, trace = []\<rparr>)))
               = Inr [(lit ''libs/a'', lit ''1111''), (lit ''libs/b'', lit ''2222'')]"
    unfolding git_update_repo_existing [of repo_url0 None None] 3 2 by simp
  from f a b show ?thesis by (intro conjI)
qed

text \<open>
  C9.  The code at the call \<open>update_repo(url, dest)\<close> on an existing destination, with
  neither \<open>reset\<close> nor \<open>clean\<close> passed: the process log holds \<open>git reset --hard HEAD\<close> and
  \<open>git clean -fd\<close>, each followed by its submodule counterpart.  With both flags passed
  as \<open>False\<close> none of the four runs.
\<close>

theorem update_repo_default_flags:
  "map fst (trace (snd (update_repo git_env repo_url0 (lit ''repo'') None True False None None None
                          \<lparr>world = 1, trace = []\<rparr>))) =
     [[lit ''git'', lit ''rev-parse'', lit ''HEAD''],
      [lit ''git'', lit ''submodule'', lit ''status'', lit ''--recursive''],
      [lit ''git'', lit ''reset'', lit ''--hard'', lit ''HEAD''],
      [lit ''git'', lit ''submodule'', lit ''foreach'', lit ''--recursive'', lit ''git reset --hard HEAD''],
      [lit ''git'', lit ''clean'', lit ''-fd''],
      [lit ''git'', lit ''submodule'', lit ''foreach'', lit ''--recursive'', lit ''git clean -fd''],
      [lit ''git'', lit ''fetch'', lit ''--all''],
      [lit ''git'', lit ''pull''],
      [lit ''git'', lit ''submodule'', lit ''sync'', lit ''--recursive''],
      [lit ''git'', lit ''submodule'', lit ''update'', lit ''--init'', lit ''--recursive''],
      [lit ''git'', lit ''rev-parse'', lit ''HEAD''],
      [lit ''git'', lit ''submodule'', lit ''status'', lit ''--recursive''],
      [lit ''git'', lit ''log'', lit ''1111..3333'', lit ''--pretty=format:%H|%an|%ae|%ad|%s'', lit ''--date=iso'']]
   \<and> map fst (trace (snd (update_repo git_env repo_url0 (lit ''repo'') None True False None
                            (Some False) (Some False) \<lparr>world = 1, trace = []\<rparr>))) =
     [[lit ''git'', lit ''rev-parse'', lit ''HEAD''],
      [lit ''git'', lit ''submodule'', lit ''status'', lit ''--recursive''],
      [lit ''git'', lit ''fetch'', lit ''--all''],
      [lit ''git'', lit ''pull''],
      [lit ''git'', lit ''submodule'', lit ''sync'', lit ''--recursive''],
      [lit ''git'', lit ''submodule'', lit ''update'', lit ''--init'', lit ''--recursive''],
      [lit ''git'', lit ''rev-parse'', lit ''HEAD''],
      [lit ''git'', lit ''submodule'', lit ''status'', lit ''--recursive''],
      [lit ''git'', lit ''log'', lit ''1111..3333'', lit ''--pretty=format:%H|%an|%ae|%ad|%s'', lit ''--date=iso'']]"
  unfolding git_update_repo_existing
  by (simp add: reset_default_def clean_default_def reset_hard_cmd_def
        clean_untracked_cmd_def submodule_reset_cmd_def submodule_clean_cmd_def)

end
